theory Spec2Isabelle
  imports Main "HOL-Library.Word"
begin

unbundle bit_operations_syntax

section \<open>Time\<close>

text \<open>
  Go's \<open>time.Duration\<close> is a count of nanoseconds; an instant (\<open>time.Time\<close>) is
  modelled as the number of nanoseconds since the Unix epoch. Both are integers, the
  64-bit saturation of \<open>Time.Sub\<close> (about 292 years) is left out.
\<close>

type_synonym Time = int
type_synonym Duration = int

definition Millisecond :: Duration where
  "Millisecond = 1000000"

definition Second :: Duration where
  "Second = 1000 * Millisecond"

section \<open>Status cache (ServiceStatusCache)\<close>

record CachedServiceStatus =
  c_Status :: string
  c_PID :: int
  c_Timestamp :: Time

record ServiceStatusCache =
  cache :: "string \<rightharpoonup> CachedServiceStatus"
  ttl :: Duration

definition NewServiceStatusCache :: ServiceStatusCache where
  "NewServiceStatusCache = \<lparr>cache = Map.empty, ttl = 5 * Second\<rparr>"

text \<open>
  The methods of the cache read \<open>time.Now()\<close>; the instant read is the argument
  \<open>now\<close>. \<open>Get\<close> only takes the read lock and returns the entry (or nothing): it has
  no cache to return, the cache stays as it was.
\<close>

definition Get :: "ServiceStatusCache \<Rightarrow> Time \<Rightarrow> string \<Rightarrow> CachedServiceStatus option" where
  "Get c now serviceName =
     (case cache c serviceName of
        None \<Rightarrow> None
      | Some status \<Rightarrow>
          if now - c_Timestamp status > ttl c then None else Some status)"

definition Set :: "ServiceStatusCache \<Rightarrow> Time \<Rightarrow> string \<Rightarrow> string \<Rightarrow> int \<Rightarrow> ServiceStatusCache" where
  "Set c now serviceName status pid =
     c\<lparr>cache := (cache c)(serviceName \<mapsto>
          \<lparr>c_Status = status, c_PID = pid, c_Timestamp = now\<rparr>)\<rparr>"

definition Remove :: "ServiceStatusCache \<Rightarrow> string \<Rightarrow> ServiceStatusCache" where
  "Remove c serviceName = c\<lparr>cache := (cache c)(serviceName := None)\<rparr>"

definition Clear :: "ServiceStatusCache \<Rightarrow> ServiceStatusCache" where
  "Clear c = c\<lparr>cache := Map.empty\<rparr>"

text \<open>
  \<open>CleanExpired\<close> ranges over the map and deletes every entry whose age at \<open>now\<close>
  exceeds the time-to-live; the order of the range does not matter, each key is
  decided on its own entry.
\<close>

definition CleanExpired :: "ServiceStatusCache \<Rightarrow> Time \<Rightarrow> ServiceStatusCache" where
  "CleanExpired c now =
     c\<lparr>cache := (\<lambda>serviceName.
          case cache c serviceName of
            None \<Rightarrow> None
          | Some status \<Rightarrow>
              if now - c_Timestamp status > ttl c then None else Some status)\<rparr>"

section \<open>The OS service control types (golang.org/x/sys/windows/svc)\<close>

text \<open>
  The states a service can be reported in (\<open>svc.State\<close>) and the control commands the
  OS sends to a service (\<open>svc.Cmd\<close>). The program names \<open>Stopped\<close>,
  \<open>StartPending\<close>, \<open>StopPending\<close> and \<open>Running\<close> and the commands \<open>Stop\<close>,
  \<open>Shutdown\<close> and \<open>Interrogate\<close>; the others fall in its default branches.
\<close>

datatype State =
  Stopped | StartPending | StopPending | Running | ContinuePending | PausePending | Paused

datatype Cmd =
  Stop | Pause | Continue | Interrogate | Shutdown | ParamChange | NetBindAdd
  | NetBindRemove | NetBindEnable | NetBindDisable | DeviceEvent | HardwareProfileChange
  | PowerEvent | SessionChange | PreShutdown

definition AcceptStop :: "32 word" where
  "AcceptStop = 1"

definition AcceptShutdown :: "32 word" where
  "AcceptShutdown = 4"

text \<open>\<open>svc.Status\<close>, with the fields this program reads or writes.\<close>

record svc_Status =
  State :: State
  Accepts :: "32 word"
  ProcessId :: "32 word"

record ChangeRequest =
  Cmd :: Cmd
  CurrentStatus :: svc_Status

text \<open>\<open>mgr.Config\<close>, with the fields \<open>CreateService\<close> sets.\<close>

record mgr_Config =
  ServiceType :: "32 word"
  StartType :: "32 word"
  ErrorControl :: "32 word"
  DisplayName :: string
  Description :: string

definition SERVICE_WIN32_OWN_PROCESS :: "32 word" where
  "SERVICE_WIN32_OWN_PROCESS = 0x10"

definition StartAutomatic :: "32 word" where
  "StartAutomatic = 2"

definition StartManual :: "32 word" where
  "StartManual = 3"

definition ErrorNormal :: "32 word" where
  "ErrorNormal = 1"

section \<open>Service records (app.go)\<close>

text \<open>\<open>PID\<close> is a Go \<open>int\<close>, 64 bits wide on the platforms the program is built for.\<close>

record Service =
  ID :: string
  Name :: string
  ExePath :: string
  Args :: string
  WorkingDir :: string
  Status :: string
  PID :: int
  AutoStart :: bool
  CreatedAt :: Time
  UpdatedAt :: Time

record ServiceConfig =
  cfg_Name :: string
  cfg_ExePath :: string
  cfg_Args :: string
  cfg_WorkingDir :: string

text \<open>\<open>exec.Cmd\<close>, with the fields the wrapper sets; \<open>Pid\<close> is \<open>Process.Pid\<close>.\<close>

record exec_Cmd =
  Path :: string
  CmdArgs :: "string list"
  Dir :: string
  HideWindow :: bool
  Pid :: "nat option"

section \<open>The operating system as the manager sees it\<close>

text \<open>
  The manager talks to the service control manager, the registry and the file system.
  What they answer is not decided by this program, so the OS is a parameter: a state of
  any type \<open>'w\<close> and one transition per OS call used, returning the call's outcome
  (\<open>True\<close> for a nil error) and the next state. A service handle and a registry key
  handle are named by the service name and the key path they were opened with. The
  library functions \<open>filepath.Dir\<close>, \<open>strings.Fields\<close> and the decoding of a string
  into its runes are parameters too, and so is the outcome of starting a process
  (\<open>exec_Start\<close>: the process id, or nothing when \<open>Cmd.Start\<close> returns an error).
\<close>

record 'w OS =
  mgr_Connect :: "'w \<Rightarrow> bool \<times> 'w"
  mgr_Disconnect :: "'w \<Rightarrow> 'w"
  mgr_OpenService :: "string \<Rightarrow> 'w \<Rightarrow> bool \<times> 'w"
  mgr_CreateService :: "string \<Rightarrow> string \<Rightarrow> mgr_Config \<Rightarrow> 'w \<Rightarrow> bool \<times> 'w"
  svc_Close :: "string \<Rightarrow> 'w \<Rightarrow> 'w"
  svc_Query :: "string \<Rightarrow> 'w \<Rightarrow> svc_Status option \<times> 'w"
  svc_Start :: "string \<Rightarrow> 'w \<Rightarrow> bool \<times> 'w"
  svc_Control :: "string \<Rightarrow> Cmd \<Rightarrow> 'w \<Rightarrow> bool \<times> 'w"
  svc_Delete :: "string \<Rightarrow> 'w \<Rightarrow> bool \<times> 'w"
  reg_OpenKey :: "string \<Rightarrow> 'w \<Rightarrow> bool \<times> 'w"
  reg_CreateKey :: "string \<Rightarrow> string \<Rightarrow> 'w \<Rightarrow> bool \<times> 'w"
  reg_SetStringValue :: "string \<Rightarrow> string \<Rightarrow> string \<Rightarrow> 'w \<Rightarrow> bool \<times> 'w"
  reg_Close :: "string \<Rightarrow> 'w \<Rightarrow> 'w"
  os_Executable :: "'w \<Rightarrow> string option \<times> 'w"
  os_Stat_IsNotExist :: "string \<Rightarrow> 'w \<Rightarrow> bool \<times> 'w"
  os_WriteFile :: "'w \<Rightarrow> 'w"
  filepath_Dir :: "string \<Rightarrow> string"
  strings_Fields :: "string \<Rightarrow> string list"
  runes :: "string \<Rightarrow> int list"
  exec_Start :: "exec_Cmd \<Rightarrow> nat option"

text \<open>The calls made to the OS are recorded in the order they are made.\<close>

datatype os_call =
  CallConnect
  | CallDisconnect
  | CallOpenService string
  | CallCreateService string string mgr_Config
  | CallClose string
  | CallQuery string
  | CallStart string
  | CallControl string Cmd
  | CallDelete string
  | CallRegOpenKey string
  | CallRegCreateKey string string
  | CallRegSetStringValue string string string
  | CallRegClose string
  | CallExecutable
  | CallStat string
  | CallWriteFile

text \<open>Events emitted to the user interface, and goroutines started with \<open>go\<close>.\<close>

datatype event =
  ServiceStatusChanged string string int
  | ServicesUpdated

datatype task =
  SaveServicesTask
  | SleepThenStartService Duration string

section \<open>The manager (WindowsServiceManager) and its world\<close>

text \<open>
  One state holds the manager's fields (\<open>services\<close>, \<open>statusCache\<close>, and whether a
  context was set) and the world it acts on: the clock read by \<open>time.Now()\<close>, the OS,
  the record of OS calls, the events emitted and the goroutines started. Every method
  takes the state and returns its result with the next state. A method runs under the
  manager's lock, so nothing else changes \<open>services\<close> while it runs. The clock moves
  only in \<open>time.Sleep\<close>: an OS call takes no time on it.
\<close>

record 'w sys =
  services :: "string \<rightharpoonup> Service"
  statusCache :: ServiceStatusCache
  ctx :: bool
  clock :: Time
  os :: 'w
  oslog :: "os_call list"
  events :: "event list"
  spawned :: "task list"

text \<open>The errors the manager returns, one constructor per message of the source.\<close>

datatype error =
  ErrConnectSCM
  | ErrQueryStatus
  | ErrServiceStartFailed
  | ErrWaitTimeout
  | ErrRegOpenKey
  | ErrRegCreateKey
  | ErrRegSetValue
  | ErrExecutable
  | ErrStoreConfig error
  | ErrSetExePath error
  | ErrSetArgs error
  | ErrSetWorkingDir error
  | ErrExeNotExist string
  | ErrNameExists string
  | ErrCreateWindowsService
  | ErrCreateWrapper error
  | ErrSetImagePath error
  | ErrServiceNotExist string
  | ErrOpenService
  | ErrAlreadyRunning
  | ErrStart
  | ErrSendStop

subsection \<open>OS calls\<close>

definition call :: "os_call \<Rightarrow> ('w \<Rightarrow> 'r \<times> 'w) \<Rightarrow> 'w sys \<Rightarrow> 'r \<times> 'w sys" where
  "call c f s = (let (r, w) = f (os s) in (r, s\<lparr>os := w, oslog := oslog s @ [c]\<rparr>))"

definition call0 :: "os_call \<Rightarrow> ('w \<Rightarrow> 'w) \<Rightarrow> 'w sys \<Rightarrow> 'w sys" where
  "call0 c f s = s\<lparr>os := f (os s), oslog := oslog s @ [c]\<rparr>"

definition Connect :: "'w OS \<Rightarrow> 'w sys \<Rightarrow> bool \<times> 'w sys" where
  "Connect api = call CallConnect (mgr_Connect api)"

definition Disconnect :: "'w OS \<Rightarrow> 'w sys \<Rightarrow> 'w sys" where
  "Disconnect api = call0 CallDisconnect (mgr_Disconnect api)"

definition OpenService :: "'w OS \<Rightarrow> string \<Rightarrow> 'w sys \<Rightarrow> bool \<times> 'w sys" where
  "OpenService api n = call (CallOpenService n) (mgr_OpenService api n)"

definition CreateServiceSCM ::
  "'w OS \<Rightarrow> string \<Rightarrow> string \<Rightarrow> mgr_Config \<Rightarrow> 'w sys \<Rightarrow> bool \<times> 'w sys" where
  "CreateServiceSCM api n exe c = call (CallCreateService n exe c) (mgr_CreateService api n exe c)"

definition Close :: "'w OS \<Rightarrow> string \<Rightarrow> 'w sys \<Rightarrow> 'w sys" where
  "Close api n = call0 (CallClose n) (svc_Close api n)"

definition Query :: "'w OS \<Rightarrow> string \<Rightarrow> 'w sys \<Rightarrow> svc_Status option \<times> 'w sys" where
  "Query api n = call (CallQuery n) (svc_Query api n)"

definition Start :: "'w OS \<Rightarrow> string \<Rightarrow> 'w sys \<Rightarrow> bool \<times> 'w sys" where
  "Start api n = call (CallStart n) (svc_Start api n)"

definition Control :: "'w OS \<Rightarrow> string \<Rightarrow> Cmd \<Rightarrow> 'w sys \<Rightarrow> bool \<times> 'w sys" where
  "Control api n c = call (CallControl n c) (svc_Control api n c)"

definition Delete :: "'w OS \<Rightarrow> string \<Rightarrow> 'w sys \<Rightarrow> bool \<times> 'w sys" where
  "Delete api n = call (CallDelete n) (svc_Delete api n)"

definition RegOpenKey :: "'w OS \<Rightarrow> string \<Rightarrow> 'w sys \<Rightarrow> bool \<times> 'w sys" where
  "RegOpenKey api k = call (CallRegOpenKey k) (reg_OpenKey api k)"

definition RegCreateKey :: "'w OS \<Rightarrow> string \<Rightarrow> string \<Rightarrow> 'w sys \<Rightarrow> bool \<times> 'w sys" where
  "RegCreateKey api k sub = call (CallRegCreateKey k sub) (reg_CreateKey api k sub)"

definition RegSetStringValue ::
  "'w OS \<Rightarrow> string \<Rightarrow> string \<Rightarrow> string \<Rightarrow> 'w sys \<Rightarrow> bool \<times> 'w sys" where
  "RegSetStringValue api k n v = call (CallRegSetStringValue k n v) (reg_SetStringValue api k n v)"

definition RegClose :: "'w OS \<Rightarrow> string \<Rightarrow> 'w sys \<Rightarrow> 'w sys" where
  "RegClose api k = call0 (CallRegClose k) (reg_Close api k)"

definition Executable :: "'w OS \<Rightarrow> 'w sys \<Rightarrow> string option \<times> 'w sys" where
  "Executable api = call CallExecutable (os_Executable api)"

definition StatIsNotExist :: "'w OS \<Rightarrow> string \<Rightarrow> 'w sys \<Rightarrow> bool \<times> 'w sys" where
  "StatIsNotExist api p = call (CallStat p) (os_Stat_IsNotExist api p)"

definition Sleep :: "Duration \<Rightarrow> 'w sys \<Rightarrow> 'w sys" where
  "Sleep d s = s\<lparr>clock := clock s + d\<rparr>"

subsection \<open>Helpers of the manager\<close>

text \<open>\<open>saveServices\<close> writes the registry to the data file and ignores the outcome.\<close>

definition saveServices :: "'w OS \<Rightarrow> 'w sys \<Rightarrow> 'w sys" where
  "saveServices api = call0 CallWriteFile (os_WriteFile api)"

definition emitServiceStatusChanged :: "string \<Rightarrow> string \<Rightarrow> int \<Rightarrow> 'w sys \<Rightarrow> 'w sys" where
  "emitServiceStatusChanged serviceID status pid s =
     (if ctx s then s\<lparr>events := events s @ [ServiceStatusChanged serviceID status pid]\<rparr>
      else s)"

definition emitServicesUpdated :: "'w sys \<Rightarrow> 'w sys" where
  "emitServicesUpdated s =
     (if ctx s then s\<lparr>events := events s @ [ServicesUpdated]\<rparr> else s)"

definition cacheSet :: "string \<Rightarrow> string \<Rightarrow> int \<Rightarrow> 'w sys \<Rightarrow> 'w sys" where
  "cacheSet serviceName status pid s =
     s\<lparr>statusCache := Set (statusCache s) (clock s) serviceName status pid\<rparr>"

text \<open>
  A Go function returning \<open>error\<close> returns \<open>error + unit\<close> here: \<open>Inl e\<close> for the
  error \<open>e\<close>, \<open>Inr ()\<close> for nil. A closure run by \<open>withSCM\<close> that assigns to a
  variable of the enclosing function returns that value in \<open>Inr\<close>.
\<close>

definition withSCM ::
  "'w OS \<Rightarrow> ('w sys \<Rightarrow> (error + 'a) \<times> 'w sys) \<Rightarrow> 'w sys \<Rightarrow> (error + 'a) \<times> 'w sys" where
  "withSCM api operation s =
     (let (ok, s1) = Connect api s in
      if \<not> ok then (Inl ErrConnectSCM, s1)
      else let (r, s2) = operation s1 in (r, Disconnect api s2))"

subsection \<open>waitForServiceState\<close>

function wait_loop ::
  "'w OS \<Rightarrow> string \<Rightarrow> State \<Rightarrow> Time \<Rightarrow> 'w sys \<Rightarrow> (error + unit) \<times> 'w sys" where
  "wait_loop api h targetState deadline s =
     (if clock s < deadline then
        (case Query api h s of
           (None, s1) \<Rightarrow> (Inl ErrQueryStatus, s1)
         | (Some status, s1) \<Rightarrow>
             if State status = targetState then (Inr (), s1)
             else if targetState = Running \<and> State status = Stopped
               then (Inl ErrServiceStartFailed, s1)
             else wait_loop api h targetState deadline (Sleep (500 * Millisecond) s1))
      else (Inl ErrWaitTimeout, s))"
  by pat_completeness auto
termination
  by (relation "measure (\<lambda>(api, h, targetState, deadline, s). nat (deadline - clock s))")
     (auto simp: Query_def call_def Sleep_def Millisecond_def split: prod.splits)

definition waitForServiceState ::
  "'w OS \<Rightarrow> string \<Rightarrow> State \<Rightarrow> Duration \<Rightarrow> 'w sys \<Rightarrow> (error + unit) \<times> 'w sys" where
  "waitForServiceState api h targetState timeout s =
     wait_loop api h targetState (clock s + timeout) s"

declare wait_loop.simps [simp del]

text \<open>
  Wait-for-state in the specification's words: poll the OS for the state every 500 ms
  until it reaches the target, for as many polls as fit before the deadline
  (\<open>n\<close> of them). A state of \<open>Stopped\<close> while waiting for \<open>Running\<close> is a start
  failure; running out of polls is the timeout.
\<close>

fun poll :: "'w OS \<Rightarrow> string \<Rightarrow> State \<Rightarrow> nat \<Rightarrow> 'w sys \<Rightarrow> (error + unit) \<times> 'w sys" where
  "poll api h targetState 0 s = (Inl ErrWaitTimeout, s)"
| "poll api h targetState (Suc n) s =
     (case Query api h s of
        (None, s1) \<Rightarrow> (Inl ErrQueryStatus, s1)
      | (Some status, s1) \<Rightarrow>
          if State status = targetState then (Inr (), s1)
          else if targetState = Running \<and> State status = Stopped
            then (Inl ErrServiceStartFailed, s1)
          else poll api h targetState n (Sleep (500 * Millisecond) s1))"

subsection \<open>Registry values of a service\<close>

definition services_key :: "string \<Rightarrow> string" where
  "services_key serviceName =
     ''SYSTEM'' @ [CHR 0x5C] @ ''CurrentControlSet'' @ [CHR 0x5C] @ ''Services'' @ [CHR 0x5C]
       @ serviceName"

definition setServiceRegistryValue ::
  "'w OS \<Rightarrow> string \<Rightarrow> string \<Rightarrow> string \<Rightarrow> string \<Rightarrow> 'w sys \<Rightarrow> (error + unit) \<times> 'w sys" where
  "setServiceRegistryValue api serviceName subKey valueName value s =
     (let keyPath = (if subKey \<noteq> [] then services_key serviceName @ [CHR 0x5C] @ subKey
                     else services_key serviceName)
      in
      if subKey \<noteq> [] then
        (let (ok, s1) = RegOpenKey api (services_key serviceName) s in
         if \<not> ok then (Inl ErrRegOpenKey, s1)
         else
           let (ok2, s2) = RegCreateKey api (services_key serviceName) subKey s1 in
           if \<not> ok2 then (Inl ErrRegCreateKey, RegClose api (services_key serviceName) s2)
           else
             let (ok3, s3) = RegSetStringValue api keyPath valueName value s2;
                 s4 = RegClose api (services_key serviceName) (RegClose api keyPath s3)
             in if \<not> ok3 then (Inl ErrRegSetValue, s4) else (Inr (), s4))
      else
        (let (ok, s1) = RegOpenKey api keyPath s in
         if \<not> ok then (Inl ErrRegOpenKey, s1)
         else
           let (ok3, s3) = RegSetStringValue api keyPath valueName value s1;
               s4 = RegClose api keyPath s3
           in if \<not> ok3 then (Inl ErrRegSetValue, s4) else (Inr (), s4)))"

definition setServiceWorkingDirectory ::
  "'w OS \<Rightarrow> string \<Rightarrow> string \<Rightarrow> 'w sys \<Rightarrow> (error + unit) \<times> 'w sys" where
  "setServiceWorkingDirectory api serviceName workingDir =
     setServiceRegistryValue api serviceName ''Parameters'' ''AppDirectory'' workingDir"

definition setServiceImagePathDirect ::
  "'w OS \<Rightarrow> string \<Rightarrow> string \<Rightarrow> 'w sys \<Rightarrow> (error + unit) \<times> 'w sys" where
  "setServiceImagePathDirect api serviceName imagePath =
     setServiceRegistryValue api serviceName [] ''ImagePath'' imagePath"

definition storeServiceConfigInRegistry ::
  "'w OS \<Rightarrow> string \<Rightarrow> string \<Rightarrow> string \<Rightarrow> string \<Rightarrow> 'w sys \<Rightarrow> (error + unit) \<times> 'w sys" where
  "storeServiceConfigInRegistry api serviceName exePath args workingDir s =
     (case setServiceRegistryValue api serviceName ''Parameters'' ''ExePath'' exePath s of
        (Inl e, s1) \<Rightarrow> (Inl (ErrSetExePath e), s1)
      | (Inr _, s1) \<Rightarrow>
          (case (if args \<noteq> []
                 then setServiceRegistryValue api serviceName ''Parameters'' ''Args'' args s1
                 else (Inr (), s1)) of
             (Inl e, s2) \<Rightarrow> (Inl (ErrSetArgs e), s2)
           | (Inr _, s2) \<Rightarrow>
               (case (if workingDir \<noteq> []
                      then setServiceRegistryValue api serviceName ''Parameters''
                             ''WorkingDir'' workingDir s2
                      else (Inr (), s2)) of
                  (Inl e, s3) \<Rightarrow> (Inl (ErrSetWorkingDir e), s3)
                | (Inr _, s3) \<Rightarrow> (Inr (), s3))))"

definition createServiceWrapper ::
  "'w OS \<Rightarrow> string \<Rightarrow> string \<Rightarrow> string \<Rightarrow> string \<Rightarrow> 'w sys \<Rightarrow> (error + string) \<times> 'w sys" where
  "createServiceWrapper api serviceName exePath args workingDir s =
     (case Executable api s of
        (None, s1) \<Rightarrow> (Inl ErrExecutable, s1)
      | (Some currentExe, s1) \<Rightarrow>
          (case storeServiceConfigInRegistry api serviceName exePath args workingDir s1 of
             (Inl e, s2) \<Rightarrow> (Inl (ErrStoreConfig e), s2)
           | (Inr _, s2) \<Rightarrow>
               (Inr ([CHR 0x22] @ currentExe @ [CHR 0x22] @ '' --service-wrapper ''
                       @ serviceName), s2)))"

subsection \<open>generateServiceName\<close>

function decimal :: "nat \<Rightarrow> string" where
  "decimal n =
     (if n < 10 then [char_of (48 + n)]
      else decimal (n div 10) @ [char_of (48 + n mod 10)])"
  by pat_completeness auto
termination
  by (relation "measure id") auto

declare decimal.simps [simp del]

definition format_d :: "int \<Rightarrow> string" where
  "format_d i = (if i < 0 then ''-'' @ decimal (nat (- i)) else decimal (nat i))"

definition cleanRune :: "int \<Rightarrow> char" where
  "cleanRune r =
     (if (97 \<le> r \<and> r \<le> 122) \<or> (65 \<le> r \<and> r \<le> 90) \<or> (48 \<le> r \<and> r \<le> 57)
      then char_of r else CHR ''_'')"

definition generateServiceName :: "'w OS \<Rightarrow> string \<Rightarrow> 'w sys \<Rightarrow> string" where
  "generateServiceName api displayName s =
     ''WSM_'' @ map cleanRune (runes api displayName) @ ''_'' @ format_d (clock s div Second)"

subsection \<open>CreateService\<close>

definition description_prefix :: string where
  "description_prefix =
     [CHR 0xE7, CHR 0x94, CHR 0xB1, CHR 0x57, CHR 0x69, CHR 0x6E, CHR 0x64, CHR 0x6F,
      CHR 0x77, CHR 0x73, CHR 0xE6, CHR 0x9C, CHR 0x8D, CHR 0xE5, CHR 0x8A, CHR 0xA1,
      CHR 0xE7, CHR 0xAE, CHR 0xA1, CHR 0xE7, CHR 0x90, CHR 0x86, CHR 0xE5, CHR 0x99,
      CHR 0xA8, CHR 0xE5, CHR 0x88, CHR 0x9B, CHR 0xE5, CHR 0xBB, CHR 0xBA, CHR 0xE7,
      CHR 0x9A, CHR 0x84, CHR 0xE6, CHR 0x9C, CHR 0x8D, CHR 0xE5, CHR 0x8A, CHR 0xA1,
      CHR 0x3A, CHR 0x20]"

definition serviceConfig :: "ServiceConfig \<Rightarrow> mgr_Config" where
  "serviceConfig config =
     \<lparr>ServiceType = SERVICE_WIN32_OWN_PROCESS,
      StartType = StartAutomatic,
      ErrorControl = ErrorNormal,
      DisplayName = cfg_Name config,
      Description = description_prefix @ cfg_Name config\<rparr>"

text \<open>
  The closure \<open>CreateService\<close> hands to \<open>withSCM\<close>. It assigns the new record to the
  variable \<open>service\<close> of \<open>CreateService\<close>; here it returns the record. The deferred
  \<open>windowsService.Close()\<close> runs on every return after the OS service was created.
\<close>

definition CreateService_op ::
  "'w OS \<Rightarrow> ServiceConfig \<Rightarrow> string \<Rightarrow> string \<Rightarrow> 'w sys \<Rightarrow> (error + Service) \<times> 'w sys" where
  "CreateService_op api config serviceName workingDir s =
     (let binaryPath =
            (if cfg_Args config \<noteq> []
             then [CHR 0x22] @ cfg_ExePath config @ [CHR 0x22] @ '' '' @ cfg_Args config
             else cfg_ExePath config);
          (ok, s1) = CreateServiceSCM api serviceName binaryPath (serviceConfig config) s
      in
      if \<not> ok then (Inl ErrCreateWindowsService, s1)
      else
        (case createServiceWrapper api serviceName (cfg_ExePath config) (cfg_Args config)
                workingDir s1 of
           (Inl e, s2) \<Rightarrow>
             (Inl (ErrCreateWrapper e), Close api serviceName (snd (Delete api serviceName s2)))
         | (Inr wrapperPath, s2) \<Rightarrow>
             (case setServiceImagePathDirect api serviceName wrapperPath s2 of
                (Inl e, s3) \<Rightarrow>
                  (Inl (ErrSetImagePath e),
                   Close api serviceName (snd (Delete api serviceName s3)))
              | (Inr _, s3) \<Rightarrow>
                  (let s4 = snd (setServiceWorkingDirectory api serviceName workingDir s3);
                       service =
                         \<lparr>ID = serviceName,
                          Name = cfg_Name config,
                          ExePath = cfg_ExePath config,
                          Args = cfg_Args config,
                          WorkingDir = workingDir,
                          Status = ''stopped'',
                          PID = 0,
                          AutoStart = False,
                          CreatedAt = clock s4,
                          UpdatedAt = clock s4\<rparr>
                   in (Inr service, Close api serviceName s4)))))"

definition CreateService ::
  "'w OS \<Rightarrow> ServiceConfig \<Rightarrow> 'w sys \<Rightarrow> (error + Service) \<times> 'w sys" where
  "CreateService api config s =
     (let (notExist, s1) = StatIsNotExist api (cfg_ExePath config) s in
      if notExist then (Inl (ErrExeNotExist (cfg_ExePath config)), s1)
      else
        let serviceName = generateServiceName api (cfg_Name config) s1 in
        if services s1 serviceName \<noteq> None then (Inl (ErrNameExists serviceName), s1)
        else
          let workingDir =
                (if cfg_WorkingDir config = [] then filepath_Dir api (cfg_ExePath config)
                 else cfg_WorkingDir config)
          in
          (case withSCM api (CreateService_op api config serviceName workingDir) s1 of
             (Inl e, s2) \<Rightarrow> (Inl e, s2)
           | (Inr service, s2) \<Rightarrow>
               (let s3 = s2\<lparr>services := (services s2)(serviceName \<mapsto> service)\<rparr>;
                    s4 = saveServices api s3;
                    s5 = emitServicesUpdated s4;
                    s6 = s5\<lparr>spawned := spawned s5
                            @ [SleepThenStartService (1 * Second) serviceName]\<rparr>
                in (Inr service, s6))))"

subsection \<open>StartService\<close>

text \<open>
  \<open>service\<close> is the pointer read from the registry at the start of the method; a write
  to one of its fields is a write to the registry's entry.
\<close>

definition StartService_op ::
  "'w OS \<Rightarrow> string \<Rightarrow> Service \<Rightarrow> 'w sys \<Rightarrow> (error + unit) \<times> 'w sys" where
  "StartService_op api serviceID service s =
     (case Query api serviceID s of
        (None, s1) \<Rightarrow> (Inl ErrQueryStatus, s1)
      | (Some status, s1) \<Rightarrow>
          if State status = Running then (Inl ErrAlreadyRunning, s1)
          else
            let (ok, s2) = Start api serviceID s1 in
            if \<not> ok then (Inl ErrStart, s2)
            else
              (case waitForServiceState api serviceID Running (30 * Second) s2 of
                 (Inl e, s3) \<Rightarrow>
                   (let s4 = s3\<lparr>services := (services s3)(serviceID \<mapsto>
                                   service\<lparr>Status := ''error'', UpdatedAt := clock s3\<rparr>)\<rparr>
                    in (Inl e, saveServices api s4))
               | (Inr _, s3) \<Rightarrow>
                   (let (q, s4) = Query api serviceID s3;
                        pid = (case q of None \<Rightarrow> 0 | Some status' \<Rightarrow> uint (ProcessId status'));
                        s5 = s4\<lparr>services := (services s4)(serviceID \<mapsto>
                                   service\<lparr>Status := ''running'', PID := pid,
                                     UpdatedAt := clock s4\<rparr>)\<rparr>;
                        s6 = cacheSet serviceID ''running'' pid s5;
                        s7 = saveServices api s6;
                        s8 = emitServiceStatusChanged serviceID ''running'' pid s7
                    in (Inr (), s8))))"

definition StartService :: "'w OS \<Rightarrow> string \<Rightarrow> 'w sys \<Rightarrow> (error + unit) \<times> 'w sys" where
  "StartService api serviceID s =
     (case services s serviceID of
        None \<Rightarrow> (Inl (ErrServiceNotExist serviceID), s)
      | Some service \<Rightarrow>
          withSCM api (\<lambda>s0.
            let (ok, s1) = OpenService api serviceID s0 in
            if \<not> ok then (Inl ErrOpenService, s1)
            else
              let (r, s2) = StartService_op api serviceID service s1
              in (r, Close api serviceID s2)) s)"

subsection \<open>StopService\<close>

definition StopService_op ::
  "'w OS \<Rightarrow> string \<Rightarrow> Service \<Rightarrow> 'w sys \<Rightarrow> (error + unit) \<times> 'w sys" where
  "StopService_op api serviceID service s =
     (case Query api serviceID s of
        (None, s1) \<Rightarrow> (Inl ErrQueryStatus, s1)
      | (Some status, s1) \<Rightarrow>
          if State status = Stopped then
            (let s2 = s1\<lparr>services := (services s1)(serviceID \<mapsto>
                            service\<lparr>Status := ''stopped'', PID := 0,
                              UpdatedAt := clock s1\<rparr>)\<rparr>
             in (Inr (), saveServices api s2))
          else
            let (ok, s2) = Control api serviceID Stop s1 in
            if \<not> ok then (Inl ErrSendStop, s2)
            else
              (case waitForServiceState api serviceID Stopped (30 * Second) s2 of
                 (Inl e, s3) \<Rightarrow> (Inl e, s3)
               | (Inr _, s3) \<Rightarrow>
                   (let s4 = s3\<lparr>services := (services s3)(serviceID \<mapsto>
                                   service\<lparr>Status := ''stopped'', PID := 0,
                                     UpdatedAt := clock s3\<rparr>)\<rparr>;
                        s5 = cacheSet serviceID ''stopped'' 0 s4;
                        s6 = saveServices api s5;
                        s7 = emitServiceStatusChanged serviceID ''stopped'' 0 s6
                    in (Inr (), s7))))"

definition StopService :: "'w OS \<Rightarrow> string \<Rightarrow> 'w sys \<Rightarrow> (error + unit) \<times> 'w sys" where
  "StopService api serviceID s =
     (case services s serviceID of
        None \<Rightarrow> (Inl (ErrServiceNotExist serviceID), s)
      | Some service \<Rightarrow>
          withSCM api (\<lambda>s0.
            let (ok, s1) = OpenService api serviceID s0 in
            if \<not> ok then (Inl ErrOpenService, s1)
            else
              let (r, s2) = StopService_op api serviceID service s1
              in (r, Close api serviceID s2)) s)"

subsection \<open>getServiceRealTimeStatus and GetServices\<close>

definition getServiceRealTimeStatus ::
  "'w OS \<Rightarrow> string \<Rightarrow> 'w sys \<Rightarrow> (string \<times> int) \<times> 'w sys" where
  "getServiceRealTimeStatus api serviceName s =
     (case Get (statusCache s) (clock s) serviceName of
        Some cachedStatus \<Rightarrow> ((c_Status cachedStatus, c_PID cachedStatus), s)
      | None \<Rightarrow>
          let (ok, s1) = OpenService api serviceName s in
          if \<not> ok then ((''error'', 0), cacheSet serviceName ''error'' 0 s1)
          else
            (case Query api serviceName s1 of
               (None, s2) \<Rightarrow>
                 ((''error'', 0), Close api serviceName (cacheSet serviceName ''error'' 0 s2))
             | (Some status, s2) \<Rightarrow>
                 (let (statusStr, pid) =
                        (case State status of
                           Running \<Rightarrow> (''running'', uint (ProcessId status))
                         | Stopped \<Rightarrow> (''stopped'', 0)
                         | StartPending \<Rightarrow> (''starting'', 0)
                         | StopPending \<Rightarrow> (''stopping'', uint (ProcessId status))
                         | _ \<Rightarrow> (''error'', 0))
                  in ((statusStr, pid),
                      Close api serviceName (cacheSet serviceName statusStr pid s2)))))"

text \<open>
  \<open>GetServices\<close> ranges over the registry in the order Go's map iteration happens to
  take, which is the argument \<open>order\<close>: the keys of the registry, each once. The loop
  refreshes each record in turn, asking for the status of the record's \<open>ID\<close>.
\<close>

fun refreshServices :: "'w OS \<Rightarrow> string list \<Rightarrow> 'w sys \<Rightarrow> 'w sys" where
  "refreshServices api [] s = s"
| "refreshServices api (serviceID # rest) s =
     (case services s serviceID of
        None \<Rightarrow> refreshServices api rest s
      | Some service \<Rightarrow>
          let ((status, pid), s1) = getServiceRealTimeStatus api (ID service) s;
              s2 = s1\<lparr>services := (services s1)(serviceID \<mapsto>
                        service\<lparr>Status := status, PID := pid, UpdatedAt := clock s1\<rparr>)\<rparr>
          in refreshServices api rest s2)"

definition GetServices ::
  "'w OS \<Rightarrow> string list \<Rightarrow> 'w sys \<Rightarrow> (error + Service list) \<times> 'w sys" where
  "GetServices api order s =
     (case withSCM api (\<lambda>s0. (Inr (), refreshServices api order s0)) s of
        (Inl e, s1) \<Rightarrow> (Inl e, s1)
      | (Inr _, s1) \<Rightarrow>
          (Inr (List.map_filter (services s1) order),
           s1\<lparr>spawned := spawned s1 @ [SaveServicesTask]\<rparr>))"

section \<open>The service wrapper (wrapper.go)\<close>

text \<open>
  The wrapper's fields, with what it has sent on the status channel \<open>s\<close>
  (\<open>reported\<close>, oldest first), the calls it made on the target process and its clock.
\<close>

datatype proc_call = ProcStart exec_Cmd | ProcKill | ProcWait

record wrapper =
  serviceName :: string
  config :: ServiceConfig
  process :: "exec_Cmd option"
  isRunning :: bool
  reported :: "svc_Status list"
  proc_calls :: "proc_call list"
  wclock :: Time

definition NewEmbeddedServiceWrapper :: "string \<Rightarrow> ServiceConfig \<Rightarrow> wrapper" where
  "NewEmbeddedServiceWrapper name cfg =
     \<lparr>serviceName = name, config = cfg, process = None, isRunning = False,
      reported = [], proc_calls = [], wclock = 0\<rparr>"

definition send :: "svc_Status \<Rightarrow> wrapper \<Rightarrow> wrapper" where
  "send st w = w\<lparr>reported := reported w @ [st]\<rparr>"

text \<open>\<open>svc.Status{State: st}\<close>: the fields not named are zero.\<close>

definition status_of :: "State \<Rightarrow> svc_Status" where
  "status_of st = \<lparr>State = st, Accepts = 0, ProcessId = 0\<rparr>"

definition targetCmd :: "'w OS \<Rightarrow> ServiceConfig \<Rightarrow> exec_Cmd" where
  "targetCmd api cfg =
     \<lparr>Path = cfg_ExePath cfg,
      CmdArgs = (if cfg_Args cfg \<noteq> [] then strings_Fields api (cfg_Args cfg) else []),
      Dir = (if cfg_WorkingDir cfg = [] then filepath_Dir api (cfg_ExePath cfg)
             else cfg_WorkingDir cfg),
      HideWindow = True,
      Pid = None\<rparr>"

definition startTargetProcess :: "'w OS \<Rightarrow> wrapper \<Rightarrow> bool \<times> wrapper" where
  "startTargetProcess api w =
     (let cmd = targetCmd api (config w);
          w1 = w\<lparr>process := Some cmd, proc_calls := proc_calls w @ [ProcStart cmd]\<rparr>
      in case exec_Start api cmd of
           None \<Rightarrow> (False, w1)
         | Some pid \<Rightarrow> (True, w1\<lparr>process := Some (cmd\<lparr>Pid := Some pid\<rparr>), isRunning := True\<rparr>))"

definition stopTargetProcess :: "wrapper \<Rightarrow> wrapper" where
  "stopTargetProcess w =
     (if process w \<noteq> None \<and> isRunning w
      then w\<lparr>proc_calls := proc_calls w @ [ProcKill, ProcWait], isRunning := False\<rparr>
      else w)"

text \<open>
  What happens around the loop of \<open>Execute\<close>, in the order it happens: the select
  receives a request from \<open>r\<close>, or finds none and takes its default branch, or (between
  two rounds) the goroutine \<open>monitorTargetProcess\<close> sees the target exit and clears
  \<open>isRunning\<close>. \<open>Execute\<close> may never return; on a finite run that ends before it
  returns its result is \<open>None\<close>.
\<close>

datatype wrapper_event = Received ChangeRequest | NoRequest | TargetExited

fun Execute_loop :: "wrapper_event list \<Rightarrow> wrapper \<Rightarrow> (bool \<times> 32 word) option \<times> wrapper" where
  "Execute_loop [] w = (None, w)"
| "Execute_loop (TargetExited # es) w = Execute_loop es (w\<lparr>isRunning := False\<rparr>)"
| "Execute_loop (Received c # es) w =
     (if Cmd c = Stop \<or> Cmd c = Shutdown then
        (let w1 = send (status_of StopPending) w;
             w2 = stopTargetProcess w1;
             w3 = send (status_of Stopped) w2
         in (Some (False, 0), w3))
      else if Cmd c = Interrogate then Execute_loop es (send (CurrentStatus c) w)
      else Execute_loop es w)"
| "Execute_loop (NoRequest # es) w =
     (if \<not> isRunning w then (Some (False, 0), send (status_of Stopped) w)
      else Execute_loop es (w\<lparr>wclock := wclock w + 1 * Second\<rparr>))"

definition Execute ::
  "'w OS \<Rightarrow> wrapper_event list \<Rightarrow> wrapper \<Rightarrow> (bool \<times> 32 word) option \<times> wrapper" where
  "Execute api es w =
     (let w1 = send (status_of StartPending) w;
          (ok, w2) = startTargetProcess api w1
      in if \<not> ok then (Some (False, 1), send (status_of Stopped) w2)
         else
           let w3 = send \<lparr>State = Running, Accepts = AcceptStop OR AcceptShutdown,
                          ProcessId = 0\<rparr> w2
           in Execute_loop es w3)"

text \<open>
  The statuses \<open>Execute\<close> echoes for the interrogate requests among some rounds, and
  whether its loop is still going after the rounds: no stop or shutdown request among
  them, and no round without a request after the target has exited (\<open>running\<close> says
  whether the target runs at the start).
\<close>

fun echoes :: "wrapper_event list \<Rightarrow> svc_Status list" where
  "echoes [] = []"
| "echoes (Received c # es) =
     (if Cmd c = Interrogate then CurrentStatus c # echoes es else echoes es)"
| "echoes (NoRequest # es) = echoes es"
| "echoes (TargetExited # es) = echoes es"

fun in_loop :: "bool \<Rightarrow> wrapper_event list \<Rightarrow> bool" where
  "in_loop running [] = True"
| "in_loop running (TargetExited # es) = in_loop False es"
| "in_loop running (Received c # es) =
     (Cmd c \<noteq> Stop \<and> Cmd c \<noteq> Shutdown \<and> in_loop running es)"
| "in_loop running (NoRequest # es) = (running \<and> in_loop running es)"

text \<open>The status \<open>Execute\<close> reports once the target runs.\<close>

definition running_status :: svc_Status where
  "running_status = \<lparr>State = Running, Accepts = AcceptStop OR AcceptShutdown, ProcessId = 0\<rparr>"

section \<open>Steps that only call the OS\<close>

text \<open>
  \<open>only_os_calls s s'\<close>: from \<open>s\<close> to \<open>s'\<close> the manager's fields, the clock, the
  events and the goroutines are as they were, and the record of OS calls has only grown.
\<close>

definition only_os_calls :: "'w sys \<Rightarrow> 'w sys \<Rightarrow> bool" where
  "only_os_calls s s' \<longleftrightarrow>
     services s' = services s \<and> statusCache s' = statusCache s \<and> ctx s' = ctx s
     \<and> clock s' = clock s \<and> events s' = events s \<and> spawned s' = spawned s
     \<and> (\<exists>l. oslog s' = oslog s @ l)"

section \<open>The OS world after a sequence of calls\<close>

text \<open>
  \<open>os_step api c w\<close> is the world the OS \<open>api\<close> reaches from \<open>w\<close> by the call \<open>c\<close>,
  \<open>os_after api l w\<close> the world it reaches by the calls \<open>l\<close> in order, and
  \<open>os_follows api s s'\<close> says that from \<open>s\<close> to \<open>s'\<close> the record of OS calls grew by
  some calls and the OS world is the one reached by exactly those calls.
\<close>

definition os_step :: "'w OS \<Rightarrow> os_call \<Rightarrow> 'w \<Rightarrow> 'w" where
  "os_step api c w =
     (case c of
        CallConnect \<Rightarrow> snd (mgr_Connect api w)
      | CallDisconnect \<Rightarrow> mgr_Disconnect api w
      | CallOpenService n \<Rightarrow> snd (mgr_OpenService api n w)
      | CallCreateService n p cf \<Rightarrow> snd (mgr_CreateService api n p cf w)
      | CallClose n \<Rightarrow> svc_Close api n w
      | CallQuery n \<Rightarrow> snd (svc_Query api n w)
      | CallStart n \<Rightarrow> snd (svc_Start api n w)
      | CallControl n cmd \<Rightarrow> snd (svc_Control api n cmd w)
      | CallDelete n \<Rightarrow> snd (svc_Delete api n w)
      | CallRegOpenKey k \<Rightarrow> snd (reg_OpenKey api k w)
      | CallRegCreateKey k sub \<Rightarrow> snd (reg_CreateKey api k sub w)
      | CallRegSetStringValue k n v \<Rightarrow> snd (reg_SetStringValue api k n v w)
      | CallRegClose k \<Rightarrow> reg_Close api k w
      | CallExecutable \<Rightarrow> snd (os_Executable api w)
      | CallStat p \<Rightarrow> snd (os_Stat_IsNotExist api p w)
      | CallWriteFile \<Rightarrow> os_WriteFile api w)"

definition os_after :: "'w OS \<Rightarrow> os_call list \<Rightarrow> 'w \<Rightarrow> 'w" where
  "os_after api l w = foldl (\<lambda>w' c. os_step api c w') w l"

definition os_follows :: "'w OS \<Rightarrow> 'w sys \<Rightarrow> 'w sys \<Rightarrow> bool" where
  "os_follows api s s' \<longleftrightarrow>
     (\<exists>l. oslog s' = oslog s @ l \<and> os s' = os_after api l (os s))"

text \<open>The command line \<open>CreateService\<close> registers (its variable \<open>binaryPath\<close>).\<close>

definition binaryPath :: "ServiceConfig \<Rightarrow> string" where
  "binaryPath cfg =
     (if cfg_Args cfg \<noteq> []
      then [CHR 0x22] @ cfg_ExePath cfg @ [CHR 0x22] @ '' '' @ cfg_Args cfg
      else cfg_ExePath cfg)"

section \<open>Example states\<close>

text \<open>
  A concrete cache: a new cache in which \<open>old\<close> was set at instant 0
  and \<open>new\<close> at 6 seconds, looked at at 7 seconds. \<open>old\<close> is stored but no longer
  found, and is the one entry \<open>CleanExpired\<close> removes.
\<close>

definition cache_example :: ServiceStatusCache where
  "cache_example =
     Set (Set NewServiceStatusCache 0 ''old'' ''running'' 123)
       (6 * Second) ''new'' ''stopped'' 0"

text \<open>
  An OS for the examples. Its state counts the queries answered so far; the \<open>k\<close>-th
  query is answered by \<open>answers k\<close>, every other call succeeds (opening a registry key
  when \<open>registryOK\<close>), and only \<open>C:/svc/app.exe\<close> can be started as a process.
\<close>

definition example_OS :: "(nat \<Rightarrow> svc_Status option) \<Rightarrow> bool \<Rightarrow> nat OS" where
  "example_OS answers registryOK =
     \<lparr>mgr_Connect = (\<lambda>w. (True, w)),
      mgr_Disconnect = (\<lambda>w. w),
      mgr_OpenService = (\<lambda>n w. (True, w)),
      mgr_CreateService = (\<lambda>n p c w. (True, w)),
      svc_Close = (\<lambda>n w. w),
      svc_Query = (\<lambda>n w. (answers w, Suc w)),
      svc_Start = (\<lambda>n w. (True, w)),
      svc_Control = (\<lambda>n c w. (True, w)),
      svc_Delete = (\<lambda>n w. (True, w)),
      reg_OpenKey = (\<lambda>k w. (registryOK, w)),
      reg_CreateKey = (\<lambda>k sub w. (True, w)),
      reg_SetStringValue = (\<lambda>k n v w. (True, w)),
      reg_Close = (\<lambda>k w. w),
      os_Executable = (\<lambda>w. (Some ''C:/wsm/wsm.exe'', w)),
      os_Stat_IsNotExist = (\<lambda>p w. (False, w)),
      os_WriteFile = (\<lambda>w. w),
      filepath_Dir = (\<lambda>p. ''C:/svc''),
      strings_Fields = (\<lambda>a. [a]),
      runes = map of_char,
      exec_Start = (\<lambda>c. if Path c = ''C:/svc/app.exe'' then Some 4242 else None)\<rparr>"

definition always :: "State \<Rightarrow> nat \<Rightarrow> svc_Status option" where
  "always st k = Some \<lparr>State = st, Accepts = 0, ProcessId = 4242\<rparr>"

definition svc_example :: Service where
  "svc_example =
     \<lparr>ID = ''svc'', Name = ''My service'', ExePath = ''C:/svc/app.exe'', Args = [],
      WorkingDir = ''C:/svc'', Status = ''running'', PID = 123, AutoStart = False,
      CreatedAt = 0, UpdatedAt = 0\<rparr>"

definition sys_example :: "nat sys" where
  "sys_example =
     \<lparr>services = [''svc'' \<mapsto> svc_example],
      statusCache = NewServiceStatusCache,
      ctx = True,
      clock = 100 * Second,
      os = 0,
      oslog = [],
      events = [],
      spawned = []\<rparr>"


text \<open>
  The answers of an OS whose service cannot start: \<open>Stopped\<close>, then \<open>StartPending\<close>
  once the start was requested, then \<open>Stopped\<close> again.
\<close>

definition target_gone :: "nat \<Rightarrow> svc_Status option" where
  "target_gone k =
     Some \<lparr>State = (if k = 1 then StartPending else Stopped), Accepts = 0, ProcessId = 0\<rparr>"

definition cfg_example :: ServiceConfig where
  "cfg_example =
     \<lparr>cfg_Name = ''My service'', cfg_ExePath = ''C:/svc/app.exe'', cfg_Args = [],
      cfg_WorkingDir = []\<rparr>"

definition open_fails_OS :: "nat OS" where
  "open_fails_OS = (example_OS (always Running) True)\<lparr>mgr_OpenService := (\<lambda>n w. (False, w))\<rparr>"

definition created_example :: Service where
  "created_example =
     \<lparr>ID = generateServiceName (example_OS (always Stopped) True) ''My service'' sys_example,
      Name = ''My service'', ExePath = ''C:/svc/app.exe'', Args = [],
      WorkingDir = ''C:/svc'', Status = ''stopped'', PID = 0, AutoStart = False,
      CreatedAt = 100 * Second, UpdatedAt = 100 * Second\<rparr>"

text \<open>
  A configuration whose executable cannot be started, and a control request as the OS
  delivers it to a running wrapper.
\<close>

definition missing_cfg_example :: ServiceConfig where
  "missing_cfg_example =
     \<lparr>cfg_Name = ''My service'', cfg_ExePath = ''C:/svc/missing.exe'', cfg_Args = [],
      cfg_WorkingDir = []\<rparr>"

definition request :: "Cmd \<Rightarrow> ChangeRequest" where
  "request c = \<lparr>Cmd = c, CurrentStatus = running_status\<rparr>"

section \<open>Properties of the status cache\<close>

lemma ttl_Set: "ttl (Set c now n st p) = ttl c"
  by (simp add: Set_def)

lemma ttl_CleanExpired: "ttl (CleanExpired c now) = ttl c"
  by (simp add: CleanExpired_def)

lemma Get_Set_same:
  "now' - now \<le> ttl c \<Longrightarrow>
   Get (Set c now n st p) now' n = Some \<lparr>c_Status = st, c_PID = p, c_Timestamp = now\<rparr>"
  by (simp add: Get_def Set_def)

lemma Get_None_iff:
  "Get c now n = None \<longleftrightarrow>
     (cache c n = None \<or> (\<exists>e. cache c n = Some e \<and> now - c_Timestamp e > ttl c))"
  by (auto simp: Get_def split: option.splits)

lemma Get_Some_entry: "Get c now n = Some e \<Longrightarrow> cache c n = Some e"
  by (auto simp: Get_def split: option.splits if_splits)

lemma CleanExpired_lookup:
  "cache (CleanExpired c now) n =
     (case cache c n of None \<Rightarrow> None
      | Some e \<Rightarrow> if now - c_Timestamp e > ttl c then None else Some e)"
  by (simp add: CleanExpired_def)

text \<open>
  Claim C8. For a cache with the fixed time-to-live of 5 seconds:
  (1) \<open>Set\<close> at \<open>now\<close> followed by \<open>Get\<close> of the same id at the same instant, or at
  a later instant \<open>t1\<close> no more than the time-to-live away, finds the entry, with the
  status and pid that were set;
  (2) once the entry is older than the time-to-live (at \<open>t2\<close>) \<open>Get\<close> finds nothing,
  and the entry is still stored; in general \<open>Get\<close> finds nothing exactly when the id
  is absent or its entry is older than the time-to-live, and what it finds is the
  stored entry;
  (3) \<open>CleanExpired\<close> removes exactly the entries older than the time-to-live: the keys
  left are the keys whose entry is not older, each of them keeps its entry, and the
  time-to-live stays 5 seconds.
\<close>

theorem status_cache_contract:
  assumes "ttl c = 5 * Second"
  shows "Get (Set c now n st p) now n
           = Some \<lparr>c_Status = st, c_PID = p, c_Timestamp = now\<rparr>
       \<and> (t1 - now \<le> 5 * Second \<longrightarrow>
            Get (Set c now n st p) t1 n
              = Some \<lparr>c_Status = st, c_PID = p, c_Timestamp = now\<rparr>)
       \<and> (t2 - now > 5 * Second \<longrightarrow>
            Get (Set c now n st p) t2 n = None
            \<and> cache (Set c now n st p) n
                = Some \<lparr>c_Status = st, c_PID = p, c_Timestamp = now\<rparr>)
       \<and> (Get c now n = None \<longleftrightarrow>
            (cache c n = None \<or>
             (\<exists>e. cache c n = Some e \<and> now - c_Timestamp e > 5 * Second)))
       \<and> (\<forall>e. Get c now n = Some e \<longrightarrow> cache c n = Some e)
       \<and> dom (cache (CleanExpired c now))
            = {k. \<exists>e. cache c k = Some e \<and> \<not> now - c_Timestamp e > 5 * Second}
       \<and> (\<forall>k \<in> dom (cache (CleanExpired c now)).
            cache (CleanExpired c now) k = cache c k)
       \<and> ttl (CleanExpired c now) = 5 * Second"
proof -
  have a: "Get (Set c now n st p) now n
          = Some \<lparr>c_Status = st, c_PID = p, c_Timestamp = now\<rparr>"
    using assms by (simp add: Get_Set_same Second_def Millisecond_def)
  have b: "Get (Set c now n st p) t1 n
          = Some \<lparr>c_Status = st, c_PID = p, c_Timestamp = now\<rparr>"
    if "t1 - now \<le> 5 * Second"
    using that assms by (simp add: Get_Set_same)
  have c: "Get (Set c now n st p) t2 n = None
         \<and> cache (Set c now n st p) n
             = Some \<lparr>c_Status = st, c_PID = p, c_Timestamp = now\<rparr>"
    if "t2 - now > 5 * Second"
    using that assms by (simp add: Get_def Set_def)
  have d: "Get c now n = None \<longleftrightarrow>
          (cache c n = None \<or>
           (\<exists>e. cache c n = Some e \<and> now - c_Timestamp e > 5 * Second))"
    using assms by (simp add: Get_None_iff)
  have e: "\<forall>e. Get c now n = Some e \<longrightarrow> cache c n = Some e"
    by (blast intro: Get_Some_entry)
  have f: "dom (cache (CleanExpired c now))
          = {k. \<exists>e. cache c k = Some e \<and> \<not> now - c_Timestamp e > 5 * Second}"
    using assms by (auto simp: CleanExpired_lookup dom_def split: option.splits if_splits)
  have g: "\<forall>k \<in> dom (cache (CleanExpired c now)).
          cache (CleanExpired c now) k = cache c k"
    by (auto simp: CleanExpired_lookup dom_def split: option.splits if_splits)
  have h: "ttl (CleanExpired c now) = 5 * Second"
    using assms by (simp add: ttl_CleanExpired)
  from a b c d e f g h show ?thesis by blast
qed

theorem status_cache_contract_witness:
  "ttl cache_example = 5 * Second
   \<and> 8 * Second - 7 * Second \<le> 5 * Second
   \<and> 13 * Second - 7 * Second > 5 * Second
   \<and> Get (Set cache_example (7 * Second) ''svc'' ''running'' 123) (7 * Second) ''svc''
       = Some \<lparr>c_Status = ''running'', c_PID = 123, c_Timestamp = 7 * Second\<rparr>
   \<and> Get (Set cache_example (7 * Second) ''svc'' ''running'' 123) (8 * Second) ''svc''
       = Some \<lparr>c_Status = ''running'', c_PID = 123, c_Timestamp = 7 * Second\<rparr>
   \<and> Get (Set cache_example (7 * Second) ''svc'' ''running'' 123) (13 * Second) ''svc''
       = None
   \<and> Get cache_example (7 * Second) ''old'' = None
   \<and> cache cache_example ''old''
       = Some \<lparr>c_Status = ''running'', c_PID = 123, c_Timestamp = 0\<rparr>
   \<and> Get cache_example (7 * Second) ''new''
       = Some \<lparr>c_Status = ''stopped'', c_PID = 0, c_Timestamp = 6 * Second\<rparr>
   \<and> dom (cache (CleanExpired cache_example (7 * Second))) = {''new''}
   \<and> cache (CleanExpired cache_example (7 * Second)) ''new'' = cache cache_example ''new''"
proof -
  have t: "ttl cache_example = 5 * Second"
    by (simp add: cache_example_def Set_def NewServiceStatusCache_def)
  have old: "cache cache_example ''old''
       = Some \<lparr>c_Status = ''running'', c_PID = 123, c_Timestamp = 0\<rparr>"
    by (simp add: cache_example_def Set_def NewServiceStatusCache_def)
  have new: "cache cache_example ''new''
       = Some \<lparr>c_Status = ''stopped'', c_PID = 0, c_Timestamp = 6 * Second\<rparr>"
    by (simp add: cache_example_def Set_def NewServiceStatusCache_def)
  have other: "k \<noteq> ''old'' \<Longrightarrow> k \<noteq> ''new'' \<Longrightarrow> cache cache_example k = None" for k
    by (simp add: cache_example_def Set_def NewServiceStatusCache_def)
  have keys: "{k. \<exists>e. cache cache_example k = Some e
                \<and> \<not> 7 * Second - c_Timestamp e > 5 * Second} = {''new''}"
  proof (rule set_eqI)
    fix k
    show "k \<in> {k. \<exists>e. cache cache_example k = Some e
                \<and> \<not> 7 * Second - c_Timestamp e > 5 * Second} \<longleftrightarrow> k \<in> {''new''}"
      using old new other [of k]
      by (cases "k = ''old''"; cases "k = ''new''")
         (simp_all add: Second_def Millisecond_def)
  qed
  have getnew: "Get cache_example (7 * Second) ''new''
       = Some \<lparr>c_Status = ''stopped'', c_PID = 0, c_Timestamp = 6 * Second\<rparr>"
    using new t by (simp add: Get_def Second_def Millisecond_def)
  note inst = status_cache_contract [OF t, of "7 * Second" "''svc''" "''running''" 123
      "8 * Second" "13 * Second"]
  note inst_old = status_cache_contract [OF t, of "7 * Second" "''old''" "''running''" 123
      "8 * Second" "13 * Second"]
  have le: "8 * Second - 7 * Second \<le> 5 * Second"
    and gt: "13 * Second - 7 * Second > 5 * Second"
    by (simp_all add: Second_def Millisecond_def)
  have getold: "Get cache_example (7 * Second) ''old'' = None"
    using inst_old old by (simp add: Second_def Millisecond_def)
  have clean_new: "cache (CleanExpired cache_example (7 * Second)) ''new''
      = cache cache_example ''new''"
    using inst keys by simp
  show ?thesis
    using t le gt inst old getold getnew keys clean_new by simp
qed

section \<open>Properties of the manager\<close>

subsection \<open>OS calls and the polling loop\<close>

lemma call_eq:
  "call c f s = (fst (f (os s)), s\<lparr>os := snd (f (os s)), oslog := oslog s @ [c]\<rparr>)"
  by (simp add: call_def split_def Let_def)

lemmas os_calls =
  Connect_def Disconnect_def OpenService_def CreateServiceSCM_def Close_def Query_def
  Start_def Control_def Delete_def RegOpenKey_def RegCreateKey_def RegSetStringValue_def
  RegClose_def Executable_def StatIsNotExist_def saveServices_def call_eq call0_def

lemma clock_Query: "clock (snd (Query api h s)) = clock s"
  by (simp add: Query_def call_eq)

lemma clock_Sleep: "clock (Sleep d s) = clock s + d"
  by (simp add: Sleep_def)

lemma wait_loop_poll:
  "deadline - clock s = int n * (500 * Millisecond) \<Longrightarrow>
   wait_loop api h t deadline s = poll api h t n s"
proof (induction n arbitrary: s)
  case 0
  then show ?case by (subst wait_loop.simps) simp
next
  case (Suc n)
  have lt: "clock s < deadline"
    using Suc.prems by (simp add: Millisecond_def)
  have step: "deadline - clock (Sleep (500 * Millisecond) s1) = int n * (500 * Millisecond)"
    if "Query api h s = (q, s1)" for q s1
  proof -
    have "clock s1 = clock s" using clock_Query [of api h s] that by simp
    then show ?thesis using Suc.prems by (simp add: clock_Sleep algebra_simps)
  qed
  show ?case
    apply (subst wait_loop.simps)
    using lt step Suc.IH
    by (auto split: prod.splits option.splits)
qed


lemma oslog_Query: "oslog (snd (Query api h s)) = oslog s @ [CallQuery h]"
  by (simp add: Query_def call_eq)

lemma Query_fst: "fst (Query api h s) = fst (svc_Query api h (os s))"
  by (simp add: Query_def call_eq)

lemma poll_timeout:
  "fst (poll api h t n s) = Inl ErrWaitTimeout \<Longrightarrow>
   clock (snd (poll api h t n s)) = clock s + int n * (500 * Millisecond)
   \<and> oslog (snd (poll api h t n s)) = oslog s @ replicate n (CallQuery h)"
proof (induction n arbitrary: s)
  case 0
  then show ?case by simp
next
  case (Suc n)
  obtain q s1 where q: "Query api h s = (q, s1)" by (cases "Query api h s")
  have c1: "clock s1 = clock s" using clock_Query [of api h s] q by simp
  have l1: "oslog s1 = oslog s @ [CallQuery h]" using oslog_Query [of api h s] q by simp
  from Suc.prems q obtain st where st: "q = Some st" "State st \<noteq> t"
      "\<not> (t = Running \<and> State st = Stopped)"
    by (auto split: option.splits if_splits)
  let ?s2 = "Sleep (500 * Millisecond) s1"
  have eq: "poll api h t (Suc n) s = poll api h t n ?s2"
    using q st by auto
  have "fst (poll api h t n ?s2) = Inl ErrWaitTimeout"
    using Suc.prems eq by simp
  from Suc.IH [OF this] show ?case
    using eq c1 l1 by (simp add: clock_Sleep Sleep_def algebra_simps replicate_append_same)
qed

lemma poll_early:
  "fst (poll api h t n s) \<noteq> Inl ErrWaitTimeout \<Longrightarrow>
   clock (snd (poll api h t n s)) < clock s + int n * (500 * Millisecond)"
proof (induction n arbitrary: s)
  case 0
  then show ?case by simp
next
  case (Suc n)
  obtain q s1 where q: "Query api h s = (q, s1)" by (cases "Query api h s")
  have c1: "clock s1 = clock s" using clock_Query [of api h s] q by simp
  let ?s2 = "Sleep (500 * Millisecond) s1"
  show ?case
  proof (cases "\<exists>st. q = Some st \<and> State st \<noteq> t \<and> \<not> (t = Running \<and> State st = Stopped)")
    case True
    then have eq: "poll api h t (Suc n) s = poll api h t n ?s2"
      using q by auto
    then have "fst (poll api h t n ?s2) \<noteq> Inl ErrWaitTimeout"
      using Suc.prems by simp
    from Suc.IH [OF this] show ?thesis
      using eq c1 by (simp add: clock_Sleep algebra_simps)
  next
    case False
    then have "snd (poll api h t (Suc n) s) = s1"
      using q by (auto split: option.splits)
    then show ?thesis using c1 by (simp add: Millisecond_def)
  qed
qed

lemma poll_start_failed:
  "fst (poll api h t n s) = Inl ErrServiceStartFailed \<Longrightarrow> t = Running"
  by (induction n arbitrary: s) (auto split: prod.splits option.splits if_splits)

lemma poll_first_stopped:
  "fst (svc_Query api h (os s)) = Some st \<Longrightarrow> State st = Stopped \<Longrightarrow>
   fst (poll api h Running (Suc n) s) = Inl ErrServiceStartFailed"
  using Query_fst [of api h s] by (cases "Query api h s") simp

lemma poll_first_target:
  "fst (svc_Query api h (os s)) = Some st \<Longrightarrow> State st = t \<Longrightarrow>
   fst (poll api h t (Suc n) s) = Inr ()"
  using Query_fst [of api h s] by (cases "Query api h s") simp

subsection \<open>waitForServiceState\<close>

lemma wait_30s_is_poll_60:
  "waitForServiceState api h t (30 * Second) s = poll api h t 60 s"
  unfolding waitForServiceState_def
  by (rule wait_loop_poll) (simp add: Second_def Millisecond_def)

lemma poll_numeral:
  "poll api h t (numeral k) s =
     (case Query api h s of
        (None, s1) \<Rightarrow> (Inl ErrQueryStatus, s1)
      | (Some status, s1) \<Rightarrow>
          if State status = t then (Inr (), s1)
          else if t = Running \<and> State status = Stopped
            then (Inl ErrServiceStartFailed, s1)
          else poll api h t (pred_numeral k) (Sleep (500 * Millisecond) s1))"
  by (simp add: numeral_eq_Suc)

text \<open>
  Claim C3. With the 30-second timeout the loop of \<open>waitForServiceState\<close> is the
  specification's wait-for-state with 60 polls, 500 ms apart: it returns at the first
  poll that fails, reaches the target state, or (when the target is \<open>Running\<close>) sees
  \<open>Stopped\<close>. It returns the timeout error only when the deadline has passed, 30
  seconds and 60 queries after it began, and every other result comes before the
  deadline. The start-failure error is returned only when the target is \<open>Running\<close>,
  and it is what a first poll that sees \<open>Stopped\<close> gives, not the timeout; a first
  poll that sees the target state gives success.
\<close>

theorem waitForServiceState_polls:
  "waitForServiceState api h t (30 * Second) s = poll api h t 60 s
   \<and> (fst (waitForServiceState api h t (30 * Second) s) = Inl ErrWaitTimeout \<longrightarrow>
        clock (snd (waitForServiceState api h t (30 * Second) s)) = clock s + 30 * Second
        \<and> oslog (snd (waitForServiceState api h t (30 * Second) s))
            = oslog s @ replicate 60 (CallQuery h))
   \<and> (fst (waitForServiceState api h t (30 * Second) s) \<noteq> Inl ErrWaitTimeout \<longrightarrow>
        clock (snd (waitForServiceState api h t (30 * Second) s)) < clock s + 30 * Second)
   \<and> (fst (waitForServiceState api h t (30 * Second) s) = Inl ErrServiceStartFailed \<longrightarrow>
        t = Running)
   \<and> (\<forall>st. fst (svc_Query api h (os s)) = Some st \<and> State st = Stopped \<longrightarrow>
        fst (waitForServiceState api h Running (30 * Second) s) = Inl ErrServiceStartFailed)
   \<and> (\<forall>st. fst (svc_Query api h (os s)) = Some st \<and> State st = t \<longrightarrow>
        fst (waitForServiceState api h t (30 * Second) s) = Inr ())"
proof -
  have eq: "waitForServiceState api h t' (30 * Second) s = poll api h t' 60 s" for t'
    unfolding waitForServiceState_def
    by (rule wait_loop_poll) (simp add: Second_def Millisecond_def)
  have n60: "int 60 * (500 * Millisecond) = 30 * Second"
    by (simp add: Second_def Millisecond_def)
  have a: "clock (snd (poll api h t 60 s)) = clock s + 30 * Second
        \<and> oslog (snd (poll api h t 60 s)) = oslog s @ replicate 60 (CallQuery h)"
    if "fst (poll api h t 60 s) = Inl ErrWaitTimeout"
    using poll_timeout [OF that] n60 by simp
  have b: "clock (snd (poll api h t 60 s)) < clock s + 30 * Second"
    if "fst (poll api h t 60 s) \<noteq> Inl ErrWaitTimeout"
    using poll_early [OF that] n60 by simp
  have c: "t = Running" if "fst (poll api h t 60 s) = Inl ErrServiceStartFailed"
    using that by (rule poll_start_failed)
  have d: "fst (poll api h Running 60 s) = Inl ErrServiceStartFailed"
    if "fst (svc_Query api h (os s)) = Some st" "State st = Stopped" for st
    using poll_first_stopped [OF that, of 59] by simp
  have e: "fst (poll api h t 60 s) = Inr ()"
    if "fst (svc_Query api h (os s)) = Some st" "State st = t" for st
    using poll_first_target [OF that, of 59] by simp
  show ?thesis
    unfolding eq using a b c d e by blast
qed


text \<open>
  Three runs from \<open>sys_example\<close> (clock at 100 s): the OS answers \<open>StartPending\<close> for
  ever and the wait times out at 130 s after 60 queries; it answers \<open>Stopped\<close> and the
  wait fails at once with the start failure; it answers \<open>Running\<close> and the wait
  succeeds.
\<close>

lemma poll_always_pending:
  "fst (poll (example_OS (always StartPending) b) h Running n s) = Inl ErrWaitTimeout"
  by (induction n arbitrary: s)
     (simp_all add: Query_def call_eq example_OS_def always_def)

theorem waitForServiceState_polls_witness:
  "fst (waitForServiceState (example_OS (always StartPending) True) ''svc'' Running
          (30 * Second) sys_example) = Inl ErrWaitTimeout
   \<and> clock (snd (waitForServiceState (example_OS (always StartPending) True) ''svc'' Running
          (30 * Second) sys_example)) = 130 * Second
   \<and> oslog (snd (waitForServiceState (example_OS (always StartPending) True) ''svc'' Running
          (30 * Second) sys_example)) = replicate 60 (CallQuery ''svc'')
   \<and> fst (svc_Query (example_OS (always Stopped) True) ''svc'' (os sys_example))
       = Some \<lparr>State = Stopped, Accepts = 0, ProcessId = 4242\<rparr>
   \<and> fst (waitForServiceState (example_OS (always Stopped) True) ''svc'' Running
          (30 * Second) sys_example) = Inl ErrServiceStartFailed
   \<and> clock (snd (waitForServiceState (example_OS (always Stopped) True) ''svc'' Running
          (30 * Second) sys_example)) < 130 * Second
   \<and> fst (waitForServiceState (example_OS (always Running) True) ''svc'' Running
          (30 * Second) sys_example) = Inr ()"
proof -
  let ?p = "example_OS (always StartPending) True"
  let ?s = "example_OS (always Stopped) True"
  let ?r = "example_OS (always Running) True"
  note p = waitForServiceState_polls [of ?p "''svc''" Running sys_example]
  note s = waitForServiceState_polls [of ?s "''svc''" Running sys_example]
  note r = waitForServiceState_polls [of ?r "''svc''" Running sys_example]
  have c: "clock sys_example = 100 * Second" and l: "oslog sys_example = []"
    by (simp_all add: sys_example_def)
  have tp: "fst (waitForServiceState ?p ''svc'' Running (30 * Second) sys_example)
      = Inl ErrWaitTimeout"
    using p [THEN conjunct1] poll_always_pending [of True "''svc''" 60 sys_example]
    by simp
  have qs: "fst (svc_Query ?s ''svc'' (os sys_example))
      = Some \<lparr>State = Stopped, Accepts = 0, ProcessId = 4242\<rparr>"
    by (simp add: example_OS_def always_def)
  have qr: "fst (svc_Query ?r ''svc'' (os sys_example))
      = Some \<lparr>State = Running, Accepts = 0, ProcessId = 4242\<rparr>"
    by (simp add: example_OS_def always_def)
  have ts: "fst (waitForServiceState ?s ''svc'' Running (30 * Second) sys_example)
      = Inl ErrServiceStartFailed"
    using s [THEN conjunct2, THEN conjunct2, THEN conjunct2, THEN conjunct2,
        THEN conjunct1, rule_format, of "\<lparr>State = Stopped, Accepts = 0, ProcessId = 4242\<rparr>"]
      qs by simp
  have tr: "fst (waitForServiceState ?r ''svc'' Running (30 * Second) sys_example) = Inr ()"
    using r [THEN conjunct2, THEN conjunct2, THEN conjunct2, THEN conjunct2,
        THEN conjunct2, rule_format, of "\<lparr>State = Running, Accepts = 0, ProcessId = 4242\<rparr>"]
      qr by simp
  have cs: "clock (snd (waitForServiceState ?s ''svc'' Running (30 * Second) sys_example))
      < 130 * Second"
    using s [THEN conjunct2, THEN conjunct2, THEN conjunct1] ts c
    by (simp add: Second_def Millisecond_def)
  have cp: "clock (snd (waitForServiceState ?p ''svc'' Running (30 * Second) sys_example))
      = 130 * Second"
    and lp: "oslog (snd (waitForServiceState ?p ''svc'' Running (30 * Second) sys_example))
      = replicate 60 (CallQuery ''svc'')"
    using p [THEN conjunct2, THEN conjunct1] tp c l
    by (simp_all add: Second_def Millisecond_def)
  show ?thesis using tp cp lp qs ts cs tr by blast
qed

subsection \<open>StartService and StopService\<close>

text \<open>
  Claim C6. When the service is registered and the OS, once connected and the service
  opened, reports it \<open>Running\<close>, \<open>StartService\<close> fails with the already-running
  error. It made five OS calls (connect, open, query, close, disconnect) and no start
  request; the registry, the status cache, the events, the goroutines and the clock are
  as before.
\<close>

theorem StartService_already_running:
  assumes "services s serviceID = Some service"
    and "mgr_Connect api (os s) = (True, w1)"
    and "mgr_OpenService api serviceID w1 = (True, w2)"
    and "svc_Query api serviceID w2 = (Some status, w3)"
    and "State status = Running"
  shows "fst (StartService api serviceID s) = Inl ErrAlreadyRunning
       \<and> services (snd (StartService api serviceID s)) = services s
       \<and> statusCache (snd (StartService api serviceID s)) = statusCache s
       \<and> events (snd (StartService api serviceID s)) = events s
       \<and> spawned (snd (StartService api serviceID s)) = spawned s
       \<and> clock (snd (StartService api serviceID s)) = clock s
       \<and> oslog (snd (StartService api serviceID s))
           = oslog s @ [CallConnect, CallOpenService serviceID, CallQuery serviceID,
                        CallClose serviceID, CallDisconnect]
       \<and> os (snd (StartService api serviceID s))
           = mgr_Disconnect api (svc_Close api serviceID w3)"
  using assms
  by (simp add: StartService_def withSCM_def StartService_op_def os_calls)

text \<open>\<open>StartService\<close> on the example service, which the OS reports \<open>Running\<close>.\<close>

theorem StartService_already_running_witness:
  "services sys_example ''svc'' = Some svc_example
   \<and> mgr_Connect (example_OS (always Running) True) (os sys_example) = (True, 0)
   \<and> mgr_OpenService (example_OS (always Running) True) ''svc'' 0 = (True, 0)
   \<and> svc_Query (example_OS (always Running) True) ''svc'' 0
       = (Some \<lparr>State = Running, Accepts = 0, ProcessId = 4242\<rparr>, 1)
   \<and> fst (StartService (example_OS (always Running) True) ''svc'' sys_example)
       = Inl ErrAlreadyRunning
   \<and> services (snd (StartService (example_OS (always Running) True) ''svc'' sys_example))
       = services sys_example
   \<and> oslog (snd (StartService (example_OS (always Running) True) ''svc'' sys_example))
       = [CallConnect, CallOpenService ''svc'', CallQuery ''svc'', CallClose ''svc'',
          CallDisconnect]"
  using StartService_already_running [where s = sys_example and serviceID = "''svc''"
      and service = svc_example and api = "example_OS (always Running) True"
      and ?w1.0 = 0 and ?w2.0 = 0 and ?w3.0 = 1
      and status = "\<lparr>State = Running, Accepts = 0, ProcessId = 4242\<rparr>"]
  by (simp add: sys_example_def example_OS_def always_def)

text \<open>
  Claim C5. When the service is registered and the OS, once connected and the service
  opened, reports it \<open>Stopped\<close>, \<open>StopService\<close> succeeds. It sent no stop control: its
  OS calls are connect, open, query, the write of the data file, close and disconnect.
  The record is refreshed to status \<open>stopped\<close>, pid 0 and \<open>UpdatedAt\<close> the current
  instant, its other fields stay; on a record that already holds these three values the
  registry does not change at all. The status cache, the events, the goroutines and the
  clock are as before.
\<close>

theorem StopService_already_stopped:
  assumes "services s serviceID = Some service"
    and "mgr_Connect api (os s) = (True, w1)"
    and "mgr_OpenService api serviceID w1 = (True, w2)"
    and "svc_Query api serviceID w2 = (Some status, w3)"
    and "State status = Stopped"
  shows "fst (StopService api serviceID s) = Inr ()
       \<and> services (snd (StopService api serviceID s))
           = (services s)(serviceID \<mapsto>
               service\<lparr>Status := ''stopped'', PID := 0, UpdatedAt := clock s\<rparr>)
       \<and> (Status service = ''stopped'' \<and> PID service = 0 \<and> UpdatedAt service = clock s
            \<longrightarrow> services (snd (StopService api serviceID s)) = services s)
       \<and> statusCache (snd (StopService api serviceID s)) = statusCache s
       \<and> events (snd (StopService api serviceID s)) = events s
       \<and> spawned (snd (StopService api serviceID s)) = spawned s
       \<and> clock (snd (StopService api serviceID s)) = clock s
       \<and> oslog (snd (StopService api serviceID s))
           = oslog s @ [CallConnect, CallOpenService serviceID, CallQuery serviceID,
                        CallWriteFile, CallClose serviceID, CallDisconnect]"
  using assms
  by (auto simp add: StopService_def withSCM_def StopService_op_def os_calls)


text \<open>\<open>StopService\<close> on the example service, which the OS reports \<open>Stopped\<close>.\<close>

theorem StopService_already_stopped_witness:
  "services sys_example ''svc'' = Some svc_example
   \<and> mgr_Connect (example_OS (always Stopped) True) (os sys_example) = (True, 0)
   \<and> mgr_OpenService (example_OS (always Stopped) True) ''svc'' 0 = (True, 0)
   \<and> svc_Query (example_OS (always Stopped) True) ''svc'' 0
       = (Some \<lparr>State = Stopped, Accepts = 0, ProcessId = 4242\<rparr>, 1)
   \<and> fst (StopService (example_OS (always Stopped) True) ''svc'' sys_example) = Inr ()
   \<and> services (snd (StopService (example_OS (always Stopped) True) ''svc'' sys_example))
       = (services sys_example)(''svc'' \<mapsto>
           svc_example\<lparr>Status := ''stopped'', PID := 0, UpdatedAt := 100 * Second\<rparr>)
   \<and> oslog (snd (StopService (example_OS (always Stopped) True) ''svc'' sys_example))
       = [CallConnect, CallOpenService ''svc'', CallQuery ''svc'', CallWriteFile,
          CallClose ''svc'', CallDisconnect]"
  using StopService_already_stopped [where s = sys_example and serviceID = "''svc''"
      and service = svc_example and api = "example_OS (always Stopped) True"
      and ?w1.0 = 0 and ?w2.0 = 0 and ?w3.0 = 1
      and status = "\<lparr>State = Stopped, Accepts = 0, ProcessId = 4242\<rparr>"]
  by (simp add: sys_example_def example_OS_def always_def)

text \<open>
  Claim C1 asks that the pid be reset to 0 whenever an operation moves a record to
  \<open>stopped\<close> or \<open>error\<close>. \<open>StopService\<close> and the status refresh do so;
  \<open>StartService\<close> does not: when the wait for \<open>Running\<close> fails it writes \<open>Status\<close>
  and \<open>UpdatedAt\<close> only. In the example the record says \<open>running\<close> with pid 123,
  left by an earlier start, while the OS reports the service \<open>Stopped\<close> (its target is
  gone). \<open>StartService\<close> issues the start, the first poll sees \<open>StartPending\<close>, the
  second, 500 ms later, sees \<open>Stopped\<close>, and the record ends with status \<open>error\<close> and
  pid 123.
\<close>

theorem StartService_failure_keeps_pid:
  "services sys_example ''svc'' = Some svc_example
   \<and> Status svc_example = ''running'' \<and> PID svc_example = 123
   \<and> fst (StartService (example_OS target_gone True) ''svc'' sys_example)
       = Inl ErrServiceStartFailed
   \<and> services (snd (StartService (example_OS target_gone True) ''svc'' sys_example)) ''svc''
       = Some (svc_example\<lparr>Status := ''error'',
                 UpdatedAt := 100 * Second + 500 * Millisecond\<rparr>)
   \<and> PID (svc_example\<lparr>Status := ''error'',
              UpdatedAt := 100 * Second + 500 * Millisecond\<rparr>) = 123
   \<and> oslog (snd (StartService (example_OS target_gone True) ''svc'' sys_example))
       = [CallConnect, CallOpenService ''svc'', CallQuery ''svc'', CallStart ''svc'',
          CallQuery ''svc'', CallQuery ''svc'', CallWriteFile, CallClose ''svc'',
          CallDisconnect]"
  by (simp add: StartService_def withSCM_def StartService_op_def os_calls
      wait_30s_is_poll_60 poll_numeral Sleep_def
      sys_example_def svc_example_def example_OS_def target_gone_def)

subsection \<open>getServiceRealTimeStatus\<close>

lemma getServiceRealTimeStatus_services:
  "services (snd (getServiceRealTimeStatus api n s)) = services s"
  by (simp add: getServiceRealTimeStatus_def cacheSet_def os_calls Let_def split_def
      split: option.splits State.splits)

lemma getServiceRealTimeStatus_clock:
  "clock (snd (getServiceRealTimeStatus api n s)) = clock s"
  by (simp add: getServiceRealTimeStatus_def cacheSet_def os_calls Let_def split_def
      split: option.splits State.splits)

lemma dom_refreshServices:
  "dom (services (refreshServices api order s)) = dom (services s)"
proof (induction order arbitrary: s)
  case Nil
  then show ?case by simp
next
  case (Cons n order)
  show ?case
  proof (cases "services s n")
    case None
    then show ?thesis using Cons.IH by simp
  next
    case (Some service)
    then show ?thesis
      using Cons.IH getServiceRealTimeStatus_services [of api "ID service" s]
      by (auto simp: split_def Let_def split: if_splits)
  qed
qed

lemma dom_GetServices:
  "dom (services (snd (GetServices api order s))) = dom (services s)"
  by (auto simp: GetServices_def withSCM_def os_calls split_def Let_def dom_refreshServices
      split: prod.splits sum.splits if_splits)

text \<open>
  Claim C4. When the cache has no fresh entry for the service and the OS opens it and
  answers the query with \<open>status\<close>, \<open>getServiceRealTimeStatus\<close> returns: \<open>running\<close>
  with the pid observed for \<open>Running\<close>; \<open>stopped\<close> with pid 0 for \<open>Stopped\<close>;
  \<open>starting\<close> with pid 0 for \<open>StartPending\<close>; \<open>stopping\<close> with the pid observed for
  \<open>StopPending\<close>; \<open>error\<close> with pid 0 for every other state. What it returns is what
  it stores in the cache, stamped with the current instant.
\<close>

theorem getServiceRealTimeStatus_maps_state:
  assumes "Get (statusCache s) (clock s) n = None"
    and "mgr_OpenService api n (os s) = (True, w1)"
    and "svc_Query api n w1 = (Some status, w2)"
  shows "(State status = Running \<longrightarrow>
            fst (getServiceRealTimeStatus api n s) = (''running'', uint (ProcessId status)))
       \<and> (State status = Stopped \<longrightarrow>
            fst (getServiceRealTimeStatus api n s) = (''stopped'', 0))
       \<and> (State status = StartPending \<longrightarrow>
            fst (getServiceRealTimeStatus api n s) = (''starting'', 0))
       \<and> (State status = StopPending \<longrightarrow>
            fst (getServiceRealTimeStatus api n s) = (''stopping'', uint (ProcessId status)))
       \<and> (State status \<notin> {Running, Stopped, StartPending, StopPending} \<longrightarrow>
            fst (getServiceRealTimeStatus api n s) = (''error'', 0))
       \<and> cache (statusCache (snd (getServiceRealTimeStatus api n s))) n
           = Some \<lparr>c_Status = fst (fst (getServiceRealTimeStatus api n s)),
                   c_PID = snd (fst (getServiceRealTimeStatus api n s)),
                   c_Timestamp = clock s\<rparr>"
  using assms
  by (cases "State status")
     (simp_all add: getServiceRealTimeStatus_def cacheSet_def Set_def os_calls)

text \<open>The mapping on the example service, for five answers of the OS.\<close>

theorem getServiceRealTimeStatus_maps_state_witness:
  "Get (statusCache sys_example) (clock sys_example) ''svc'' = None
   \<and> fst (getServiceRealTimeStatus (example_OS (always Running) True) ''svc'' sys_example)
       = (''running'', 4242)
   \<and> fst (getServiceRealTimeStatus (example_OS (always Stopped) True) ''svc'' sys_example)
       = (''stopped'', 0)
   \<and> fst (getServiceRealTimeStatus (example_OS (always StartPending) True) ''svc'' sys_example)
       = (''starting'', 0)
   \<and> fst (getServiceRealTimeStatus (example_OS (always StopPending) True) ''svc'' sys_example)
       = (''stopping'', 4242)
   \<and> fst (getServiceRealTimeStatus (example_OS (always Paused) True) ''svc'' sys_example)
       = (''error'', 0)"
proof -
  have miss: "Get (statusCache sys_example) (clock sys_example) ''svc'' = None"
    by (simp add: sys_example_def NewServiceStatusCache_def Get_def)
  have op: "mgr_OpenService (example_OS (always st) True) ''svc'' (os sys_example) = (True, 0)"
    for st by (simp add: example_OS_def sys_example_def)
  have q: "svc_Query (example_OS (always st) True) ''svc'' 0
      = (Some \<lparr>State = st, Accepts = 0, ProcessId = 4242\<rparr>, 1)"
    for st by (simp add: example_OS_def always_def)
  note m = getServiceRealTimeStatus_maps_state [OF miss op q]
  show ?thesis
    using miss m [of Running] m [of Stopped] m [of StartPending] m [of StopPending]
      m [of Paused]
    by simp
qed

text \<open>
  Claim C9. When the cache has no fresh entry for the service and the OS fails to open
  it, or opens it and fails to answer the query, \<open>getServiceRealTimeStatus\<close> returns
  \<open>error\<close> with pid 0 (its result has no error to propagate) and caches that; the
  registry is untouched. The refresh of \<open>GetServices\<close> then writes \<open>error\<close>, pid 0 and
  the current instant into the record, which stays registered; \<open>GetServices\<close> never
  changes the set of registered ids.
\<close>

theorem getServiceRealTimeStatus_query_failure:
  assumes "Get (statusCache s) (clock s) n = None"
    and "\<not> fst (mgr_OpenService api n (os s))
         \<or> fst (svc_Query api n (snd (mgr_OpenService api n (os s)))) = None"
  shows "fst (getServiceRealTimeStatus api n s) = (''error'', 0)
       \<and> services (snd (getServiceRealTimeStatus api n s)) = services s
       \<and> cache (statusCache (snd (getServiceRealTimeStatus api n s))) n
           = Some \<lparr>c_Status = ''error'', c_PID = 0, c_Timestamp = clock s\<rparr>
       \<and> (\<forall>service. services s n = Some service \<and> ID service = n \<longrightarrow>
            services (refreshServices api [n] s) n
              = Some (service\<lparr>Status := ''error'', PID := 0, UpdatedAt := clock s\<rparr>))
       \<and> dom (services (snd (GetServices api order s))) = dom (services s)"
proof -
  have a: "fst (getServiceRealTimeStatus api n s) = (''error'', 0)"
    using assms
    by (auto simp: getServiceRealTimeStatus_def cacheSet_def os_calls Let_def split_def
        split: option.splits)
  have b: "cache (statusCache (snd (getServiceRealTimeStatus api n s))) n
           = Some \<lparr>c_Status = ''error'', c_PID = 0, c_Timestamp = clock s\<rparr>"
    using assms
    by (auto simp: getServiceRealTimeStatus_def cacheSet_def Set_def os_calls Let_def split_def
        split: option.splits)
  have c: "services (refreshServices api [n] s) n
              = Some (service\<lparr>Status := ''error'', PID := 0, UpdatedAt := clock s\<rparr>)"
    if "services s n = Some service" "ID service = n" for service
    using that a getServiceRealTimeStatus_clock [of api n s]
    by (simp add: split_def Let_def)
  show ?thesis
    using a b c getServiceRealTimeStatus_services [of api n s] dom_GetServices [of api order s]
    by blast
qed


text \<open>
  The example service when the OS cannot open it (\<open>open_fails_OS\<close>), and when the OS
  opens it and fails every query.
\<close>

theorem getServiceRealTimeStatus_query_failure_witness:
  "Get (statusCache sys_example) (clock sys_example) ''svc'' = None
   \<and> \<not> fst (mgr_OpenService open_fails_OS ''svc'' (os sys_example))
   \<and> fst (getServiceRealTimeStatus open_fails_OS ''svc'' sys_example) = (''error'', 0)
   \<and> fst (svc_Query (example_OS (\<lambda>k. None) True) ''svc''
        (snd (mgr_OpenService (example_OS (\<lambda>k. None) True) ''svc'' (os sys_example)))) = None
   \<and> fst (getServiceRealTimeStatus (example_OS (\<lambda>k. None) True) ''svc'' sys_example)
       = (''error'', 0)
   \<and> services sys_example ''svc'' = Some svc_example
   \<and> ID svc_example = ''svc''
   \<and> services (refreshServices (example_OS (\<lambda>k. None) True) [''svc''] sys_example) ''svc''
       = Some (svc_example\<lparr>Status := ''error'', PID := 0, UpdatedAt := 100 * Second\<rparr>)
   \<and> dom (services (snd (GetServices (example_OS (\<lambda>k. None) True) [''svc''] sys_example)))
       = {''svc''}"
proof -
  have miss: "Get (statusCache sys_example) (clock sys_example) ''svc'' = None"
    by (simp add: sys_example_def NewServiceStatusCache_def Get_def)
  have o: "\<not> fst (mgr_OpenService open_fails_OS ''svc'' (os sys_example))"
    by (simp add: open_fails_OS_def)
  have q: "fst (svc_Query (example_OS (\<lambda>k. None) True) ''svc''
        (snd (mgr_OpenService (example_OS (\<lambda>k. None) True) ''svc'' (os sys_example)))) = None"
    by (simp add: example_OS_def)
  have r: "services sys_example ''svc'' = Some svc_example" "ID svc_example = ''svc''"
    "clock sys_example = 100 * Second" "dom (services sys_example) = {''svc''}"
    by (simp_all add: sys_example_def svc_example_def)
  note a = getServiceRealTimeStatus_query_failure [OF miss disjI1, OF o, of "[]"]
  note b = getServiceRealTimeStatus_query_failure [OF miss disjI2, OF q, of "[''svc'']"]
  show ?thesis
    using miss o q r a b by simp
qed

subsection \<open>CreateService\<close>

lemma only_os_calls_refl: "only_os_calls s s"
  by (simp add: only_os_calls_def)

lemma only_os_calls_trans:
  "only_os_calls s s1 \<Longrightarrow> only_os_calls s1 s2 \<Longrightarrow> only_os_calls s s2"
  by (auto simp: only_os_calls_def)

lemma only_os_calls_call: "only_os_calls s (snd (call c f s))"
  by (simp add: only_os_calls_def call_eq)

lemma only_os_calls_call0: "only_os_calls s (call0 c f s)"
  by (simp add: only_os_calls_def call0_def)

lemma only_os_calls_setServiceRegistryValue:
  "setServiceRegistryValue api n sub k v s = (r, s') \<Longrightarrow> only_os_calls s s'"
  by (auto simp: setServiceRegistryValue_def only_os_calls_def os_calls Let_def split_def
      split: if_splits)

lemma only_os_calls_storeServiceConfigInRegistry:
  "storeServiceConfigInRegistry api n exe args dir s = (r, s') \<Longrightarrow> only_os_calls s s'"
  unfolding storeServiceConfigInRegistry_def
  by (auto split: prod.splits sum.splits if_splits
      dest!: only_os_calls_setServiceRegistryValue
      intro: only_os_calls_trans)

lemma only_os_calls_callD: "call c f s = (r, s') \<Longrightarrow> only_os_calls s s'"
  using only_os_calls_call [of s c f] by simp

lemma only_os_calls_createServiceWrapper:
  "createServiceWrapper api n exe args dir s = (r, s') \<Longrightarrow> only_os_calls s s'"
  unfolding createServiceWrapper_def Executable_def
  by (auto split: prod.splits sum.splits option.splits
      dest!: only_os_calls_storeServiceConfigInRegistry only_os_calls_callD
      intro: only_os_calls_trans)

lemma only_os_calls_setServiceImagePathDirect:
  "setServiceImagePathDirect api n p s = (r, s') \<Longrightarrow> only_os_calls s s'"
  unfolding setServiceImagePathDirect_def by (rule only_os_calls_setServiceRegistryValue)

lemma only_os_calls_setServiceWorkingDirectory:
  "setServiceWorkingDirectory api n p s = (r, s') \<Longrightarrow> only_os_calls s s'"
  unfolding setServiceWorkingDirectory_def by (rule only_os_calls_setServiceRegistryValue)

lemma only_os_calls_append:
  "only_os_calls s s' \<Longrightarrow> only_os_calls s (s'\<lparr>oslog := oslog s' @ l\<rparr>)"
  by (auto simp: only_os_calls_def)



lemma CreateService_op_ok:
  assumes "CreateService_op api cfg name dir s = (Inr service, s')"
  shows "only_os_calls s s'
       \<and> service = \<lparr>ID = name, Name = cfg_Name cfg, ExePath = cfg_ExePath cfg,
            Args = cfg_Args cfg, WorkingDir = dir, Status = ''stopped'', PID = 0,
            AutoStart = False, CreatedAt = clock s, UpdatedAt = clock s\<rparr>
       \<and> (\<exists>path l. oslog s' = oslog s @ CallCreateService name path (serviceConfig cfg)
                       # l @ [CallClose name])"
proof -
  define path where "path =
     (if cfg_Args cfg \<noteq> []
      then [CHR 0x22] @ cfg_ExePath cfg @ [CHR 0x22] @ '' '' @ cfg_Args cfg
      else cfg_ExePath cfg)"
  obtain ok s1 where c: "CreateServiceSCM api name path (serviceConfig cfg) s = (ok, s1)"
    by (cases "CreateServiceSCM api name path (serviceConfig cfg) s")
  have l1: "oslog s1 = oslog s @ [CallCreateService name path (serviceConfig cfg)]"
    and o1: "only_os_calls s s1"
    using c by (auto simp: CreateServiceSCM_def call_eq only_os_calls_def)
  obtain r2 s2 where w: "createServiceWrapper api name (cfg_ExePath cfg)
      (cfg_Args cfg) dir s1 = (r2, s2)"
    by (cases "createServiceWrapper api name (cfg_ExePath cfg) (cfg_Args cfg) dir s1")
  from assms c w obtain wrapperPath where ok: ok and r2: "r2 = Inr wrapperPath"
    by (auto simp: CreateService_op_def path_def [symmetric] split: if_splits sum.splits)
  obtain r3 s3 where i: "setServiceImagePathDirect api name wrapperPath s2 = (r3, s3)"
    by (cases "setServiceImagePathDirect api name wrapperPath s2")
  from assms c w ok r2 i obtain u where r3: "r3 = Inr u"
    by (auto simp: CreateService_op_def path_def [symmetric] split: sum.splits)
  obtain r4 s4 where d: "setServiceWorkingDirectory api name dir s3 = (r4, s4)"
    by (cases "setServiceWorkingDirectory api name dir s3")
  have o4: "only_os_calls s1 s4"
    using only_os_calls_createServiceWrapper [OF w]
      only_os_calls_setServiceImagePathDirect [OF i]
      only_os_calls_setServiceWorkingDirectory [OF d]
    by (blast intro: only_os_calls_trans)
  have res: "s' = Close api name s4"
    "service = \<lparr>ID = name, Name = cfg_Name cfg, ExePath = cfg_ExePath cfg,
            Args = cfg_Args cfg, WorkingDir = dir, Status = ''stopped'', PID = 0,
            AutoStart = False, CreatedAt = clock s4, UpdatedAt = clock s4\<rparr>"
    using assms c w ok r2 i r3 d
    by (simp_all add: CreateService_op_def path_def [symmetric] Let_def)
  show ?thesis
    using res o1 o4 l1 by (auto simp: only_os_calls_def os_calls)
qed

lemma withSCM_result:
  assumes "withSCM api operation s = (r, s')"
  shows "(r = Inl ErrConnectSCM \<and> only_os_calls s s')
       \<or> (\<exists>s1 s2. only_os_calls s s1 \<and> oslog s1 = oslog s @ [CallConnect]
             \<and> operation s1 = (r, s2) \<and> only_os_calls s2 s'
             \<and> oslog s' = oslog s2 @ [CallDisconnect])"
proof -
  obtain ok s1 where c: "Connect api s = (ok, s1)"
    by (cases "Connect api s")
  have o1: "only_os_calls s s1" and l1: "oslog s1 = oslog s @ [CallConnect]"
    using c by (auto simp: Connect_def call_eq only_os_calls_def)
  show ?thesis
  proof (cases ok)
    case False
    then show ?thesis using assms c o1 by (simp add: withSCM_def)
  next
    case True
    obtain r2 s2 where op: "operation s1 = (r2, s2)"
      by (cases "operation s1")
    have r: "r = r2" and s': "s' = Disconnect api s2"
      using assms c True op by (simp_all add: withSCM_def)
    have "only_os_calls s2 s'" and "oslog s' = oslog s2 @ [CallDisconnect]"
      by (simp_all add: s' Disconnect_def call0_def only_os_calls_def)
    then show ?thesis
      using o1 l1 op r by blast
  qed
qed

text \<open>The OS world through \<open>CreateService\<close>.\<close>

lemma os_after_simps:
  "os_after api [] w = w"
  "os_after api (c # l) w = os_after api l (os_step api c w)"
  "os_after api (l @ l') w = os_after api l' (os_after api l w)"
  by (simp_all add: os_after_def)

lemma os_follows_refl: "os_follows api s s"
  by (simp add: os_follows_def os_after_simps)

lemma os_follows_trans:
  "os_follows api s s1 \<Longrightarrow> os_follows api s1 s2 \<Longrightarrow> os_follows api s s2"
  unfolding os_follows_def
proof (elim exE conjE)
  fix l l'
  assume "oslog s1 = oslog s @ l" "os s1 = os_after api l (os s)"
    "oslog s2 = oslog s1 @ l'" "os s2 = os_after api l' (os s1)"
  then have "oslog s2 = oslog s @ (l @ l') \<and> os s2 = os_after api (l @ l') (os s)"
    by (simp add: os_after_simps)
  then show "\<exists>l. oslog s2 = oslog s @ l \<and> os s2 = os_after api l (os s)" by blast
qed

lemma os_followsI:
  "oslog s' = oslog s @ l \<Longrightarrow> os s' = os_after api l (os s) \<Longrightarrow> os_follows api s s'"
  unfolding os_follows_def by blast

lemma os_follows_setServiceRegistryValue:
  "setServiceRegistryValue api n sub k v s = (r, s') \<Longrightarrow> os_follows api s s'"
  by (auto simp: setServiceRegistryValue_def os_follows_def os_after_simps os_step_def
      os_calls Let_def split_def split: if_splits)


lemma os_follows_storeServiceConfigInRegistry:
  "storeServiceConfigInRegistry api n exe args dir s = (r, s') \<Longrightarrow> os_follows api s s'"
  unfolding storeServiceConfigInRegistry_def
  by (auto split: prod.splits sum.splits if_splits
      dest!: os_follows_setServiceRegistryValue
      intro: os_follows_trans)

lemma os_follows_Executable:
  "Executable api s = (r, s') \<Longrightarrow> os_follows api s s'"
  by (auto simp: Executable_def call_eq os_follows_def os_after_simps os_step_def)

lemma os_follows_createServiceWrapper:
  "createServiceWrapper api n exe args dir s = (r, s') \<Longrightarrow> os_follows api s s'"
  unfolding createServiceWrapper_def
  by (auto split: prod.splits sum.splits option.splits
      dest!: os_follows_storeServiceConfigInRegistry os_follows_Executable
      intro: os_follows_trans)

lemma os_follows_setServiceImagePathDirect:
  "setServiceImagePathDirect api n p s = (r, s') \<Longrightarrow> os_follows api s s'"
  unfolding setServiceImagePathDirect_def by (rule os_follows_setServiceRegistryValue)

lemma os_follows_setServiceWorkingDirectory:
  "setServiceWorkingDirectory api n p s = (r, s') \<Longrightarrow> os_follows api s s'"
  unfolding setServiceWorkingDirectory_def by (rule os_follows_setServiceRegistryValue)


lemma CreateService_op_ok_os:
  assumes "CreateService_op api cfg name dir s = (Inr service, s')"
  shows "fst (mgr_CreateService api name (binaryPath cfg) (serviceConfig cfg) (os s))
       \<and> (\<exists>l. oslog s' = oslog s
              @ CallCreateService name (binaryPath cfg) (serviceConfig cfg)
                # l @ [CallClose name]
            \<and> os s' = os_after api
                (CallCreateService name (binaryPath cfg) (serviceConfig cfg)
                  # l @ [CallClose name]) (os s))"
proof -
  let ?c = "CallCreateService name (binaryPath cfg) (serviceConfig cfg)"
  obtain ok s1 where c: "CreateServiceSCM api name (binaryPath cfg) (serviceConfig cfg) s = (ok, s1)"
    by (cases "CreateServiceSCM api name (binaryPath cfg) (serviceConfig cfg) s")
  have l1: "oslog s1 = oslog s @ [?c]" and w1: "os s1 = os_step api ?c (os s)"
    and okv: "ok = fst (mgr_CreateService api name (binaryPath cfg) (serviceConfig cfg) (os s))"
    using c by (auto simp: CreateServiceSCM_def call_eq os_step_def)
  have ok: ok
    using assms c by (auto simp: CreateService_op_def binaryPath_def split: if_splits)
  obtain r2 s2 where w: "createServiceWrapper api name (cfg_ExePath cfg)
      (cfg_Args cfg) dir s1 = (r2, s2)"
    by (cases "createServiceWrapper api name (cfg_ExePath cfg) (cfg_Args cfg) dir s1")
  from assms c w ok obtain wrapperPath where r2: "r2 = Inr wrapperPath"
    by (cases r2) (auto simp: CreateService_op_def binaryPath_def)
  obtain r3 s3 where i: "setServiceImagePathDirect api name wrapperPath s2 = (r3, s3)"
    by (cases "setServiceImagePathDirect api name wrapperPath s2")
  from assms c w ok r2 i obtain u where r3: "r3 = Inr u"
    by (cases r3) (auto simp: CreateService_op_def binaryPath_def)
  obtain r4 s4 where d: "setServiceWorkingDirectory api name dir s3 = (r4, s4)"
    by (cases "setServiceWorkingDirectory api name dir s3")
  have "os_follows api s1 s4"
    using os_follows_createServiceWrapper [OF w]
      os_follows_setServiceImagePathDirect [OF i]
      os_follows_setServiceWorkingDirectory [OF d]
    by (blast intro: os_follows_trans)
  then obtain l where l: "oslog s4 = oslog s1 @ l" "os s4 = os_after api l (os s1)"
    unfolding os_follows_def by blast
  have s': "s' = Close api name s4"
    using assms c w ok r2 i r3 d
    by (simp add: CreateService_op_def binaryPath_def Let_def)
  have "oslog s' = oslog s @ ?c # l @ [CallClose name]
      \<and> os s' = os_after api (?c # l @ [CallClose name]) (os s)"
    using l l1 w1 by (simp add: s' os_calls os_after_simps os_step_def)
  then show ?thesis using ok okv by blast
qed

lemma withSCM_result_os:
  assumes "withSCM api operation s = (r, s')" and "r \<noteq> Inl ErrConnectSCM"
  shows "\<exists>s1 s2. oslog s1 = oslog s @ [CallConnect] \<and> os s1 = os_step api CallConnect (os s)
             \<and> operation s1 = (r, s2)
             \<and> oslog s' = oslog s2 @ [CallDisconnect]
             \<and> os s' = os_step api CallDisconnect (os s2)"
proof -
  obtain ok s1 where c: "Connect api s = (ok, s1)"
    by (cases "Connect api s")
  have l1: "oslog s1 = oslog s @ [CallConnect]" "os s1 = os_step api CallConnect (os s)"
    using c by (auto simp: Connect_def call_eq os_step_def)
  have ok: ok using assms c by (auto simp: withSCM_def split: if_splits)
  obtain r2 s2 where op: "operation s1 = (r2, s2)"
    by (cases "operation s1")
  have r: "r = r2" and s': "s' = Disconnect api s2"
    using assms c ok op by (simp_all add: withSCM_def)
  have "oslog s' = oslog s2 @ [CallDisconnect]" "os s' = os_step api CallDisconnect (os s2)"
    by (simp_all add: s' Disconnect_def call0_def os_step_def)
  then show ?thesis
    using l1 op r by blast
qed


text \<open>\<open>CreateService\<close> on the example OS, step by step.\<close>

lemma example_OS_sel:
  "mgr_Connect (example_OS a b) = (\<lambda>w. (True, w))"
  "mgr_Disconnect (example_OS a b) = (\<lambda>w. w)"
  "mgr_OpenService (example_OS a b) = (\<lambda>n w. (True, w))"
  "mgr_CreateService (example_OS a b) = (\<lambda>n p c w. (True, w))"
  "svc_Close (example_OS a b) = (\<lambda>n w. w)"
  "svc_Query (example_OS a b) = (\<lambda>n w. (a w, Suc w))"
  "svc_Start (example_OS a b) = (\<lambda>n w. (True, w))"
  "svc_Control (example_OS a b) = (\<lambda>n c w. (True, w))"
  "svc_Delete (example_OS a b) = (\<lambda>n w. (True, w))"
  "reg_OpenKey (example_OS a b) = (\<lambda>k w. (b, w))"
  "reg_CreateKey (example_OS a b) = (\<lambda>k sub w. (True, w))"
  "reg_SetStringValue (example_OS a b) = (\<lambda>k n v w. (True, w))"
  "reg_Close (example_OS a b) = (\<lambda>k w. w)"
  "os_Executable (example_OS a b) = (\<lambda>w. (Some ''C:/wsm/wsm.exe'', w))"
  "os_Stat_IsNotExist (example_OS a b) = (\<lambda>p w. (False, w))"
  "os_WriteFile (example_OS a b) = (\<lambda>w. w)"
  "filepath_Dir (example_OS a b) = (\<lambda>p. ''C:/svc'')"
  by (simp_all add: example_OS_def)

lemma example_setServiceRegistryValue:
  "fst (setServiceRegistryValue (example_OS a b) n sub k v s)
     = (if b then Inr () else Inl ErrRegOpenKey)"
  by (simp add: setServiceRegistryValue_def os_calls example_OS_sel Let_def)

lemma example_storeServiceConfigInRegistry:
  "fst (storeServiceConfigInRegistry (example_OS a b) n exe args dir s)
     = (if b then Inr () else Inl (ErrSetExePath ErrRegOpenKey))"
  by (simp add: storeServiceConfigInRegistry_def case_prod_beta
      example_setServiceRegistryValue)

lemma example_createServiceWrapper:
  "fst (createServiceWrapper (example_OS a b) n exe args dir s)
     = (if b then Inr ([CHR 0x22] @ ''C:/wsm/wsm.exe'' @ [CHR 0x22] @ '' --service-wrapper '' @ n)
        else Inl (ErrStoreConfig (ErrSetExePath ErrRegOpenKey)))"
  by (simp add: createServiceWrapper_def case_prod_beta Executable_def call_eq
      example_OS_sel example_storeServiceConfigInRegistry)

lemma clock_setServiceRegistryValue:
  "clock (snd (setServiceRegistryValue api n sub k v s)) = clock s"
proof -
  have "only_os_calls s (snd (setServiceRegistryValue api n sub k v s))"
    by (rule only_os_calls_setServiceRegistryValue) (rule prod.collapse [symmetric])
  then show ?thesis by (simp add: only_os_calls_def)
qed

lemma clock_createServiceWrapper:
  "clock (snd (createServiceWrapper api n exe args dir s)) = clock s"
proof -
  have "only_os_calls s (snd (createServiceWrapper api n exe args dir s))"
    by (rule only_os_calls_createServiceWrapper) (rule prod.collapse [symmetric])
  then show ?thesis by (simp add: only_os_calls_def)
qed

lemma example_CreateService_op:
  "fst (CreateService_op (example_OS a b) cfg n dir s)
     = (if b then Inr \<lparr>ID = n, Name = cfg_Name cfg, ExePath = cfg_ExePath cfg,
                        Args = cfg_Args cfg, WorkingDir = dir, Status = ''stopped'',
                        PID = 0, AutoStart = False, CreatedAt = clock s, UpdatedAt = clock s\<rparr>
        else Inl (ErrCreateWrapper (ErrStoreConfig (ErrSetExePath ErrRegOpenKey))))"
  by (simp add: CreateService_op_def case_prod_beta CreateServiceSCM_def call_eq
      example_OS_sel example_createServiceWrapper Let_def
      setServiceImagePathDirect_def setServiceWorkingDirectory_def
      example_setServiceRegistryValue clock_setServiceRegistryValue
      clock_createServiceWrapper)

lemma generateServiceName_update:
  "generateServiceName api n (s\<lparr>os := w\<rparr>) = generateServiceName api n s"
  "generateServiceName api n (s\<lparr>oslog := l\<rparr>) = generateServiceName api n s"
  by (simp_all add: generateServiceName_def)

lemma example_name_fresh:
  "services sys_example (generateServiceName api n s) = None"
  by (simp add: sys_example_def generateServiceName_def)

lemma example_CreateService:
  "fst (CreateService (example_OS a b) cfg_example sys_example)
     = (if b then Inr \<lparr>ID = generateServiceName (example_OS a b) ''My service'' sys_example,
                        Name = ''My service'', ExePath = ''C:/svc/app.exe'',
                        Args = [], WorkingDir = ''C:/svc'', Status = ''stopped'',
                        PID = 0, AutoStart = False, CreatedAt = 100 * Second,
                        UpdatedAt = 100 * Second\<rparr>
        else Inl (ErrCreateWrapper (ErrStoreConfig (ErrSetExePath ErrRegOpenKey))))"
proof -
  have c: "clock sys_example = 100 * Second"
    by (simp add: sys_example_def)
  have cfg: "cfg_Name cfg_example = ''My service''" "cfg_ExePath cfg_example = ''C:/svc/app.exe''"
    "cfg_Args cfg_example = []" "cfg_WorkingDir cfg_example = []"
    by (simp_all add: cfg_example_def)
  show ?thesis
    by (simp add: CreateService_def withSCM_def case_prod_beta StatIsNotExist_def
        Connect_def call_eq example_OS_sel generateServiceName_update example_name_fresh
        example_CreateService_op c cfg Let_def)
qed



text \<open>
  Claim C10. The record a successful \<open>CreateService\<close> returns has \<open>AutoStart = False\<close>
  (and status \<open>stopped\<close>, pid 0) and is the registry's entry under its id, although
  the OS registered the service with the start type \<open>StartAutomatic\<close>: the create call
  with that configuration, made under the record's id on the world reached by the stat
  and the connect, succeeded, it is the third OS call of this \<open>CreateService\<close>, and the
  OS world at the return is the one reached through the calls made. A goroutine that
  sleeps one second and then starts the service has been started.
\<close>

theorem CreateService_AutoStart_false:
  assumes "CreateService api cfg s = (Inr service, s')"
  shows "AutoStart service = False
       \<and> Status service = ''stopped''
       \<and> PID service = 0
       \<and> ID service = generateServiceName api (cfg_Name cfg) s
       \<and> services s' (ID service) = Some service
       \<and> fst (mgr_CreateService api (ID service) (binaryPath cfg) (serviceConfig cfg)
               (os_after api [CallStat (cfg_ExePath cfg), CallConnect] (os s)))
       \<and> StartType (serviceConfig cfg) = StartAutomatic
       \<and> (\<exists>l. oslog s' = oslog s
              @ [CallStat (cfg_ExePath cfg), CallConnect,
                 CallCreateService (ID service) (binaryPath cfg) (serviceConfig cfg)]
              @ l
              @ [CallClose (ID service), CallDisconnect, CallWriteFile]
            \<and> os s' = os_after api
                ([CallStat (cfg_ExePath cfg), CallConnect,
                  CallCreateService (ID service) (binaryPath cfg) (serviceConfig cfg)]
                 @ l
                 @ [CallClose (ID service), CallDisconnect, CallWriteFile]) (os s))
       \<and> (\<exists>path. CallCreateService (ID service) path (serviceConfig cfg) \<in> set (oslog s'))
       \<and> spawned s' = spawned s @ [SleepThenStartService (1 * Second) (ID service)]"
proof -
  obtain ne s1 where st: "StatIsNotExist api (cfg_ExePath cfg) s = (ne, s1)"
    by (cases "StatIsNotExist api (cfg_ExePath cfg) s")
  have o1: "only_os_calls s s1" and l1: "oslog s1 = oslog s @ [CallStat (cfg_ExePath cfg)]"
    and w1: "os s1 = os_step api (CallStat (cfg_ExePath cfg)) (os s)"
    using st by (auto simp: StatIsNotExist_def call_eq only_os_calls_def os_step_def)
  have n1: "generateServiceName api (cfg_Name cfg) s1 = generateServiceName api (cfg_Name cfg) s"
    using o1 by (simp add: generateServiceName_def only_os_calls_def)
  let ?name = "generateServiceName api (cfg_Name cfg) s"
  let ?dir = "if cfg_WorkingDir cfg = [] then filepath_Dir api (cfg_ExePath cfg)
              else cfg_WorkingDir cfg"
  let ?c = "CallCreateService ?name (binaryPath cfg) (serviceConfig cfg)"
  from assms st n1 obtain s2
    where w: "withSCM api (CreateService_op api cfg ?name ?dir) s1 = (Inr service, s2)"
      and s': "s' = emitServicesUpdated (saveServices api
                 (s2\<lparr>services := (services s2)(?name \<mapsto> service)\<rparr>))
                 \<lparr>spawned := spawned s2 @ [SleepThenStartService (1 * Second) ?name]\<rparr>"
    by (auto simp: CreateService_def Let_def emitServicesUpdated_def os_calls
        split: if_splits prod.splits sum.splits)
  from withSCM_result [OF w] obtain t1 t2
    where a: "only_os_calls s1 t1" "CreateService_op api cfg ?name ?dir t1 = (Inr service, t2)"
      "only_os_calls t2 s2"
    by auto
  from CreateService_op_ok [OF a(2)]
  have b: "only_os_calls t1 t2" "ID service = ?name" "AutoStart service = False"
      "Status service = ''stopped''" "PID service = 0"
    by auto
  have sp: "spawned s2 = spawned s"
    using o1 a(1) b(1) a(3) by (simp add: only_os_calls_def)
  have ne: "(Inr service :: error + Service) \<noteq> Inl ErrConnectSCM" by simp
  from withSCM_result_os [OF w ne] obtain u1 u2
    where c: "oslog u1 = oslog s1 @ [CallConnect]" "os u1 = os_step api CallConnect (os s1)"
      "CreateService_op api cfg ?name ?dir u1 = (Inr service, u2)"
      "oslog s2 = oslog u2 @ [CallDisconnect]" "os s2 = os_step api CallDisconnect (os u2)"
    by blast
  from CreateService_op_ok_os [OF c(3)] obtain l
    where d: "fst (mgr_CreateService api ?name (binaryPath cfg) (serviceConfig cfg) (os u1))"
      "oslog u2 = oslog u1 @ ?c # l @ [CallClose ?name]"
      "os u2 = os_after api (?c # l @ [CallClose ?name]) (os u1)"
    by blast
  have w2: "os u1 = os_after api [CallStat (cfg_ExePath cfg), CallConnect] (os s)"
    using c(2) w1 by (simp add: os_after_simps)
  have lg2: "oslog s2 = oslog s @ [CallStat (cfg_ExePath cfg), CallConnect, ?c] @ l
      @ [CallClose ?name, CallDisconnect]"
    using l1 c(1) d(2) c(4) by simp
  have ws2: "os s2 = os_after api ([CallStat (cfg_ExePath cfg), CallConnect, ?c] @ l
      @ [CallClose ?name, CallDisconnect]) (os s)"
    using c(5) d(3) w2 by (simp add: os_after_simps)
  have lg: "oslog s' = oslog s @ [CallStat (cfg_ExePath cfg), CallConnect, ?c] @ l
      @ [CallClose ?name, CallDisconnect, CallWriteFile]"
    using lg2 by (simp add: s' emitServicesUpdated_def os_calls)
  have ws: "os s' = os_after api ([CallStat (cfg_ExePath cfg), CallConnect, ?c] @ l
      @ [CallClose ?name, CallDisconnect, CallWriteFile]) (os s)"
    using ws2 by (simp add: s' emitServicesUpdated_def os_calls os_after_simps os_step_def)
  have mem: "?c \<in> set (oslog s')"
    using lg by simp
  have reg: "services s' ?name = Some service"
    by (simp add: s' emitServicesUpdated_def os_calls)
  have spw: "spawned s' = spawned s @ [SleepThenStartService (1 * Second) ?name]"
    using sp by (simp add: s' emitServicesUpdated_def os_calls)
  have auto_type: "StartType (serviceConfig cfg) = StartAutomatic"
    by (simp add: serviceConfig_def)
  from lg ws have ex: "\<exists>l. oslog s' = oslog s
              @ [CallStat (cfg_ExePath cfg), CallConnect, ?c] @ l
              @ [CallClose ?name, CallDisconnect, CallWriteFile]
            \<and> os s' = os_after api
                ([CallStat (cfg_ExePath cfg), CallConnect, ?c] @ l
                 @ [CallClose ?name, CallDisconnect, CallWriteFile]) (os s)"
    by blast
  from mem have ex2: "\<exists>path. CallCreateService ?name path (serviceConfig cfg) \<in> set (oslog s')"
    by blast
  show ?thesis
    unfolding b(2)
    using b(3,4,5) reg d(1) [unfolded w2] auto_type ex ex2 spw
    by (intro conjI) simp_all
qed


text \<open>The example: every OS call succeeds and the service is created.\<close>

theorem CreateService_AutoStart_false_witness:
  "fst (CreateService (example_OS (always Stopped) True) cfg_example sys_example)
     = Inr created_example
   \<and> AutoStart created_example = False
   \<and> services (snd (CreateService (example_OS (always Stopped) True) cfg_example sys_example))
        (ID created_example) = Some created_example
   \<and> fst (mgr_CreateService (example_OS (always Stopped) True) (ID created_example)
          (binaryPath cfg_example) (serviceConfig cfg_example)
          (os_after (example_OS (always Stopped) True)
             [CallStat (cfg_ExePath cfg_example), CallConnect] (os sys_example)))
   \<and> StartType (serviceConfig cfg_example) = StartAutomatic
   \<and> (\<exists>l.
        oslog (snd (CreateService (example_OS (always Stopped) True) cfg_example sys_example))
          = oslog sys_example
            @ [CallStat (cfg_ExePath cfg_example), CallConnect,
               CallCreateService (ID created_example) (binaryPath cfg_example)
                 (serviceConfig cfg_example)]
            @ l
            @ [CallClose (ID created_example), CallDisconnect, CallWriteFile])
   \<and> spawned (snd (CreateService (example_OS (always Stopped) True) cfg_example sys_example))
       = [SleepThenStartService (1 * Second) (ID created_example)]"
proof -
  let ?A = "example_OS (always Stopped) True"
  have e: "fst (CreateService ?A cfg_example sys_example) = Inr created_example"
    by (simp add: example_CreateService created_example_def)
  then have h: "CreateService ?A cfg_example sys_example
     = (Inr created_example, snd (CreateService ?A cfg_example sys_example))"
    by (simp add: prod_eq_iff)
  have l: "spawned sys_example = []"
    by (simp add: sys_example_def)
  note r = CreateService_AutoStart_false [OF h]
  have a: "AutoStart created_example = False" using r by blast
  have b: "services (snd (CreateService ?A cfg_example sys_example)) (ID created_example)
      = Some created_example" using r by blast
  have c: "StartType (serviceConfig cfg_example) = StartAutomatic" using r by blast
  have c2: "fst (mgr_CreateService ?A (ID created_example)
          (binaryPath cfg_example) (serviceConfig cfg_example)
          (os_after ?A [CallStat (cfg_ExePath cfg_example), CallConnect] (os sys_example)))"
    using r by blast
  have c3: "\<exists>l. oslog (snd (CreateService ?A cfg_example sys_example))
          = oslog sys_example
            @ [CallStat (cfg_ExePath cfg_example), CallConnect,
               CallCreateService (ID created_example) (binaryPath cfg_example)
                 (serviceConfig cfg_example)]
            @ l
            @ [CallClose (ID created_example), CallDisconnect, CallWriteFile]"
    using r by blast
  have "spawned (snd (CreateService ?A cfg_example sys_example))
      = spawned sys_example @ [SleepThenStartService (1 * Second) (ID created_example)]"
    using r by blast
  then have d: "spawned (snd (CreateService ?A cfg_example sys_example))
      = [SleepThenStartService (1 * Second) (ID created_example)]"
    by (simp only: l append_Nil)
  from e a b c c2 c3 d show ?thesis by blast
qed

section \<open>Properties of the service wrapper\<close>

lemma reported_stopTargetProcess: "reported (stopTargetProcess w) = reported w"
  by (simp add: stopTargetProcess_def)

lemma Execute_loop_reported:
  "\<exists>tail. reported (snd (Execute_loop es w)) = reported w @ tail"
proof (induction es w rule: Execute_loop.induct)
  case (1 w)
  then show ?case by simp
next
  case (2 es w)
  then show ?case by simp
next
  case (3 c es w)
  then show ?case
    by (auto simp: send_def reported_stopTargetProcess Let_def)
next
  case (4 es w)
  then show ?case by (auto simp: send_def)
qed

lemma Execute_loop_in_loop:
  "fst (Execute_loop pre w) = None \<longleftrightarrow> in_loop (isRunning w) pre"
  by (induction pre w rule: Execute_loop.induct) (auto simp: send_def Let_def)

lemma Execute_loop_append:
  "in_loop (isRunning w) pre \<Longrightarrow>
   Execute_loop (pre @ es) w = Execute_loop es (snd (Execute_loop pre w))
   \<and> reported (snd (Execute_loop pre w)) = reported w @ echoes pre"
  by (induction pre w rule: Execute_loop.induct) (auto simp: send_def Let_def)

lemma Execute_loop_stop_now:
  "Cmd c = Stop \<or> Cmd c = Shutdown \<Longrightarrow>
   fst (Execute_loop (Received c # rest) w) = Some (False, 0)
   \<and> reported (snd (Execute_loop (Received c # rest) w))
       = reported w @ [status_of StopPending, status_of Stopped]"
  by (auto simp: send_def reported_stopTargetProcess Let_def)

lemma example_exec_Start:
  "exec_Start (example_OS a b) (targetCmd (example_OS a b) cfg)
     = (if cfg_ExePath cfg = ''C:/svc/app.exe'' then Some 4242 else None)"
  by (simp add: example_OS_def targetCmd_def)

text \<open>
  Claim C2 says that for every valid target configuration the statuses reported are
  exactly start-pending, running and, on a stop or shutdown request, stop-pending and
  stopped. \<open>Execute\<close> answers an interrogate request by reporting the request's current
  status: on the example service, a run that receives an interrogate request and then a
  stop request reports five statuses.
\<close>

theorem Execute_interrogate_counterexample:
  "exec_Start (example_OS (always Running) True)
      (targetCmd (example_OS (always Running) True) cfg_example) = Some 4242
   \<and> fst (Execute (example_OS (always Running) True)
          [Received (request Interrogate), Received (request Stop)]
          (NewEmbeddedServiceWrapper ''svc'' cfg_example)) = Some (False, 0)
   \<and> reported (snd (Execute (example_OS (always Running) True)
          [Received (request Interrogate), Received (request Stop)]
          (NewEmbeddedServiceWrapper ''svc'' cfg_example)))
       = [status_of StartPending, running_status, running_status, status_of StopPending,
          status_of Stopped]
   \<and> reported (snd (Execute (example_OS (always Running) True)
          [Received (request Interrogate), Received (request Stop)]
          (NewEmbeddedServiceWrapper ''svc'' cfg_example)))
       \<noteq> [status_of StartPending, running_status, status_of StopPending, status_of Stopped]"
  by (simp add: Execute_def startTargetProcess_def stopTargetProcess_def send_def
      NewEmbeddedServiceWrapper_def example_exec_Start cfg_example_def request_def
      running_status_def Let_def)

text \<open>
  Claim C2, amended. For a target configuration that starts (\<open>exec_Start\<close> gives a
  process id), \<open>Execute\<close> reports start-pending and then running, whatever follows, and
  it is still in its loop after the rounds \<open>pre\<close> exactly when \<open>in_loop True pre\<close>.
  When a stop or shutdown request is received in that loop, after any such rounds,
  \<open>Execute\<close> returns \<open>(false, 0)\<close> and has reported start-pending, running, the
  current status of each interrogate request received in between, stop-pending and
  stopped: exactly start-pending, running, stop-pending, stopped when no interrogate
  request came before the stop. When the target cannot be started, \<open>Execute\<close> reports
  exactly start-pending, stopped and returns \<open>(false, 1)\<close>, whatever requests wait.
\<close>

theorem Execute_status_sequence:
  "(exec_Start api (targetCmd api cfg) = Some pid \<and> in_loop True pre
      \<and> (Cmd c = Stop \<or> Cmd c = Shutdown) \<longrightarrow>
      fst (Execute api (pre @ Received c # rest) (NewEmbeddedServiceWrapper name cfg))
        = Some (False, 0)
      \<and> reported (snd (Execute api (pre @ Received c # rest)
                          (NewEmbeddedServiceWrapper name cfg)))
          = [status_of StartPending, running_status] @ echoes pre
            @ [status_of StopPending, status_of Stopped]
      \<and> (echoes pre = [] \<longrightarrow>
          reported (snd (Execute api (pre @ Received c # rest)
                          (NewEmbeddedServiceWrapper name cfg)))
            = [status_of StartPending, running_status, status_of StopPending,
               status_of Stopped]))
   \<and> (exec_Start api (targetCmd api cfg) = Some pid \<longrightarrow>
        (fst (Execute api pre (NewEmbeddedServiceWrapper name cfg)) = None
           \<longleftrightarrow> in_loop True pre)
        \<and> (\<exists>tail. reported (snd (Execute api evs (NewEmbeddedServiceWrapper name cfg)))
           = [status_of StartPending, running_status] @ tail))
   \<and> (exec_Start api (targetCmd api cfg) = None \<longrightarrow>
        fst (Execute api evs (NewEmbeddedServiceWrapper name cfg)) = Some (False, 1)
        \<and> reported (snd (Execute api evs (NewEmbeddedServiceWrapper name cfg)))
            = [status_of StartPending, status_of Stopped])"
proof -
  let ?w0 = "NewEmbeddedServiceWrapper name cfg"
  let ?cmd = "targetCmd api cfg"
  let ?w3 = "send running_status
      (send (status_of StartPending) ?w0
        \<lparr>process := Some (?cmd\<lparr>Pid := Some pid\<rparr>),
          proc_calls := [ProcStart ?cmd], isRunning := True\<rparr>)"
  have ok: "Execute api es ?w0 = Execute_loop es ?w3"
    if "exec_Start api ?cmd = Some pid" for es
    using that
    by (simp add: Execute_def startTargetProcess_def send_def NewEmbeddedServiceWrapper_def
        running_status_def Let_def)
  have r3: "reported ?w3 = [status_of StartPending, running_status]" and i3: "isRunning ?w3"
    by (simp_all add: send_def NewEmbeddedServiceWrapper_def)
  have a: "fst (Execute api (pre @ Received c # rest) ?w0) = Some (False, 0)
      \<and> reported (snd (Execute api (pre @ Received c # rest) ?w0))
          = [status_of StartPending, running_status] @ echoes pre
            @ [status_of StopPending, status_of Stopped]"
    if v: "exec_Start api ?cmd = Some pid" and p: "in_loop True pre"
      and s: "Cmd c = Stop \<or> Cmd c = Shutdown"
  proof -
    from p i3 have p': "in_loop (isRunning ?w3) pre" by simp
    note ap = Execute_loop_append [OF p', of "Received c # rest"]
    note st = Execute_loop_stop_now [OF s, of rest "snd (Execute_loop pre ?w3)"]
    show ?thesis
      using ap st r3 by (simp only: ok [OF v]) simp
  qed
  have a': "reported (snd (Execute api (pre @ Received c # rest) ?w0))
            = [status_of StartPending, running_status, status_of StopPending,
               status_of Stopped]"
    if "exec_Start api ?cmd = Some pid" "in_loop True pre"
      "Cmd c = Stop \<or> Cmd c = Shutdown" "echoes pre = []"
    using a [OF that(1,2,3)] that(4) by simp
  have b1: "fst (Execute api pre ?w0) = None \<longleftrightarrow> in_loop True pre"
    if "exec_Start api ?cmd = Some pid"
    using Execute_loop_in_loop [of pre ?w3] i3
    by (simp only: ok [OF that])
  have b: "\<exists>tail. reported (snd (Execute api evs ?w0))
           = [status_of StartPending, running_status] @ tail"
    if "exec_Start api ?cmd = Some pid"
    using Execute_loop_reported [of evs ?w3] r3
    by (simp only: ok [OF that])
  have c: "fst (Execute api evs ?w0) = Some (False, 1)
        \<and> reported (snd (Execute api evs ?w0)) = [status_of StartPending, status_of Stopped]"
    if "exec_Start api ?cmd = None"
    using that
    by (simp add: Execute_def startTargetProcess_def send_def NewEmbeddedServiceWrapper_def
        Let_def)
  from a a' b1 b c show ?thesis by blast
qed

text \<open>
  Runs on the example OS: the example service with an idle round, an interrogate
  request and the exit of the target before the stop; the same service with an idle
  round and a pause request before a shutdown; and a configuration whose executable is
  missing.
\<close>

theorem Execute_status_sequence_witness:
  "exec_Start (example_OS (always Running) True)
      (targetCmd (example_OS (always Running) True) cfg_example) = Some 4242
   \<and> in_loop True [NoRequest, Received (request Interrogate), TargetExited]
   \<and> fst (Execute (example_OS (always Running) True)
          ([NoRequest, Received (request Interrogate), TargetExited]
           @ Received (request Stop) # [])
          (NewEmbeddedServiceWrapper ''svc'' cfg_example)) = Some (False, 0)
   \<and> reported (snd (Execute (example_OS (always Running) True)
          ([NoRequest, Received (request Interrogate), TargetExited]
           @ Received (request Stop) # [])
          (NewEmbeddedServiceWrapper ''svc'' cfg_example)))
       = [status_of StartPending, running_status, running_status, status_of StopPending,
          status_of Stopped]
   \<and> in_loop True [NoRequest, Received (request Pause)]
   \<and> echoes [NoRequest, Received (request Pause)] = []
   \<and> fst (Execute (example_OS (always Running) True) [NoRequest, Received (request Pause)]
          (NewEmbeddedServiceWrapper ''svc'' cfg_example)) = None
   \<and> fst (Execute (example_OS (always Running) True)
          ([NoRequest, Received (request Pause)] @ Received (request Shutdown) # [])
          (NewEmbeddedServiceWrapper ''svc'' cfg_example)) = Some (False, 0)
   \<and> reported (snd (Execute (example_OS (always Running) True)
          ([NoRequest, Received (request Pause)] @ Received (request Shutdown) # [])
          (NewEmbeddedServiceWrapper ''svc'' cfg_example)))
       = [status_of StartPending, running_status, status_of StopPending, status_of Stopped]
   \<and> exec_Start (example_OS (always Running) True)
        (targetCmd (example_OS (always Running) True) missing_cfg_example) = None
   \<and> fst (Execute (example_OS (always Running) True) []
          (NewEmbeddedServiceWrapper ''svc'' missing_cfg_example)) = Some (False, 1)
   \<and> reported (snd (Execute (example_OS (always Running) True) []
          (NewEmbeddedServiceWrapper ''svc'' missing_cfg_example)))
       = [status_of StartPending, status_of Stopped]"
proof -
  let ?A = "example_OS (always Running) True"
  let ?p1 = "[NoRequest, Received (request Interrogate), TargetExited]"
  let ?p2 = "[NoRequest, Received (request Pause)]"
  have v: "exec_Start ?A (targetCmd ?A cfg_example) = Some 4242"
    by (simp add: example_exec_Start cfg_example_def)
  have m: "exec_Start ?A (targetCmd ?A missing_cfg_example) = None"
    by (simp add: example_exec_Start missing_cfg_example_def)
  have l1: "in_loop True ?p1" and e1: "echoes ?p1 = [running_status]"
    and l2: "in_loop True ?p2" and e2: "echoes ?p2 = []"
    by (simp_all add: request_def)
  have s1: "Cmd (request Stop) = Stop \<or> Cmd (request Stop) = Shutdown"
    and s2: "Cmd (request Shutdown) = Stop \<or> Cmd (request Shutdown) = Shutdown"
    by (simp_all add: request_def)
  note t1 = Execute_status_sequence [of ?A cfg_example 4242 ?p1 "request Stop" "[]" "''svc''"
      "[]"]
  note t2 = Execute_status_sequence [of ?A cfg_example 4242 ?p2 "request Shutdown" "[]"
      "''svc''" "[]"]
  note t3 = Execute_status_sequence [of ?A missing_cfg_example 0 "[]" "request Stop" "[]"
      "''svc''" "[]"]
  have a: "fst (Execute ?A (?p1 @ Received (request Stop) # [])
          (NewEmbeddedServiceWrapper ''svc'' cfg_example)) = Some (False, 0)"
    using t1 v l1 s1 by blast
  have "reported (snd (Execute ?A (?p1 @ Received (request Stop) # [])
          (NewEmbeddedServiceWrapper ''svc'' cfg_example)))
       = [status_of StartPending, running_status] @ echoes ?p1
         @ [status_of StopPending, status_of Stopped]"
    using t1 v l1 s1 by blast
  then have b: "reported (snd (Execute ?A (?p1 @ Received (request Stop) # [])
          (NewEmbeddedServiceWrapper ''svc'' cfg_example)))
       = [status_of StartPending, running_status, running_status, status_of StopPending,
          status_of Stopped]"
    by (simp only: e1 append_Cons append_Nil)
  have c: "fst (Execute ?A ?p2 (NewEmbeddedServiceWrapper ''svc'' cfg_example)) = None"
    using t2 v l2 by blast
  have d: "fst (Execute ?A (?p2 @ Received (request Shutdown) # [])
          (NewEmbeddedServiceWrapper ''svc'' cfg_example)) = Some (False, 0)"
    using t2 v l2 s2 by blast
  have e: "reported (snd (Execute ?A (?p2 @ Received (request Shutdown) # [])
          (NewEmbeddedServiceWrapper ''svc'' cfg_example)))
       = [status_of StartPending, running_status, status_of StopPending, status_of Stopped]"
    using t2 v l2 s2 e2 by blast
  have f: "fst (Execute ?A [] (NewEmbeddedServiceWrapper ''svc'' missing_cfg_example))
        = Some (False, 1)"
    and g: "reported (snd (Execute ?A [] (NewEmbeddedServiceWrapper ''svc'' missing_cfg_example)))
       = [status_of StartPending, status_of Stopped]"
    using t3 m by blast+
  from v l1 a b l2 e2 c d e m f g show ?thesis by blast
qed

end
